theory Spec2Isabelle
  imports Main "HOL-Library.Char_ord" "HOL-Library.List_Lexorder"
begin

section \<open>Time\<close>

text \<open>
  The booking service computes with luxon \<open>DateTime\<close> values and compares them by
  their epoch milliseconds. An instant is modelled as that number of milliseconds on
  the wall clock of the business: the zone of the business is taken to have a fixed
  offset from UTC (as the default \<open>Asia/Tokyo\<close> and the fallback \<open>UTC\<close> have), so
  that \<open>toUTC\<close>, \<open>setZone\<close> and \<open>fromJSDate\<close> shift every instant by the same
  constant and leave every comparison as it is. Zones with daylight-saving
  transitions are outside the model.
\<close>

type_synonym instant = int

definition MS_PER_MINUTE :: int where
  "MS_PER_MINUTE = 60000"

definition MS_PER_HOUR :: int where
  "MS_PER_HOUR = 3600000"

definition MS_PER_DAY :: int where
  "MS_PER_DAY = 86400000"

text \<open>\<open>dt.plus({ minutes: m })\<close> and \<open>dt.minus({ minutes: m })\<close>.\<close>

definition plus_minutes :: "instant \<Rightarrow> int \<Rightarrow> instant" where
  "plus_minutes t m = t + m * MS_PER_MINUTE"

definition minus_minutes :: "instant \<Rightarrow> int \<Rightarrow> instant" where
  "minus_minutes t m = t - m * MS_PER_MINUTE"

text \<open>\<open>dt.plus({ days: d })\<close>.\<close>

definition plus_days :: "instant \<Rightarrow> int \<Rightarrow> instant" where
  "plus_days t d = t + d * MS_PER_DAY"

text \<open>\<open>dt.startOf("day")\<close>.\<close>

definition startOfDay :: "instant \<Rightarrow> instant" where
  "startOfDay t = t - t mod MS_PER_DAY"

text \<open>\<open>dt.weekday\<close>: 1 is Monday and 7 is Sunday; 1970-01-01 was a Thursday.\<close>

definition weekday :: "instant \<Rightarrow> int" where
  "weekday t = (t div MS_PER_DAY + 3) mod 7 + 1"

text \<open>The minute of the hour of an instant, which \<open>set\<close> keeps when no minute is given.\<close>

definition minute_of :: "instant \<Rightarrow> int" where
  "minute_of t = (t mod MS_PER_HOUR) div MS_PER_MINUTE"

text \<open>
  \<open>day.set({ hour, minute, second: 0, millisecond: 0 })\<close>. luxon's \<open>set\<close> merges the
  given units into the calendar fields of \<open>day\<close> and rebuilds the timestamp with
  \<open>Date.UTC\<close>; it does not check the ranges of the units, so an hour of 26 lands at
  02:00 of the next day. A unit that is \<open>undefined\<close> is left as \<open>day\<close> has it.
\<close>

definition set_time :: "instant \<Rightarrow> int \<Rightarrow> int option \<Rightarrow> instant" where
  "set_time day hour minute =
     startOfDay day + hour * MS_PER_HOUR
       + (case minute of None \<Rightarrow> minute_of day | Some m \<Rightarrow> m) * MS_PER_MINUTE"

text \<open>
  \<open>dt.isValid\<close> after \<open>set\<close>. \<open>Date.UTC\<close> gives \<open>NaN\<close> when the time it
  computes lies outside the range of a JavaScript date, 8.64e15 milliseconds either
  side of the epoch, and luxon then builds an invalid \<open>DateTime\<close>.
\<close>

definition isValid :: "instant \<Rightarrow> bool" where
  "isValid t = (- 8640000000000000 \<le> t \<and> t \<le> 8640000000000000)"

section \<open>Reading "HH:MM" texts\<close>

text \<open>\<open>s.split(":")\<close>: the pieces of \<open>s\<close> between colons; never an empty list.\<close>

fun split_acc :: "char \<Rightarrow> string \<Rightarrow> string \<Rightarrow> string list" where
  "split_acc c acc [] = [rev acc]"
| "split_acc c acc (x # xs) =
     (if x = c then rev acc # split_acc c [] xs else split_acc c (x # acc) xs)"

definition split :: "string \<Rightarrow> char \<Rightarrow> string list" where
  "split s c = split_acc c [] s"

definition is_digit :: "char \<Rightarrow> bool" where
  "is_digit c = (CHR ''0'' \<le> c \<and> c \<le> CHR ''9'')"

definition digit_value :: "char \<Rightarrow> int" where
  "digit_value c = int (of_char c) - 48"

text \<open>
  JavaScript's \<open>Number(v)\<close> on a text, with \<open>None\<close> for \<open>NaN\<close>. The empty text is 0
  and a run of decimal digits is its value. The model covers the times written with
  decimal digits, as "09:00" is. The other numeric literals of JavaScript (signs,
  fractions, exponents, hexadecimal, surrounding blanks, \<open>Infinity\<close>) are outside it:
  such a text reads as \<open>NaN\<close> here, which is not how the service reads it. Nor
  does the model cover a run of digits so long that JavaScript reads it as
  \<open>Infinity\<close>, a value on which luxon's \<open>set\<close> throws.
\<close>

definition Number :: "string \<Rightarrow> int option" where
  "Number v =
     (if list_all is_digit v then Some (foldl (\<lambda>n c. 10 * n + digit_value c) 0 v)
      else None)"

record interval =
  istart :: instant
  iend :: instant

text \<open>
  \<open>intervalFromStrings(day, timezone, startTime, endTime)\<close>. The destructuring
  \<open>[startHour, startMinute] = startTime.split(":").map(Number)\<close> takes the first two
  pieces; with a single piece the minute is \<open>undefined\<close>, which \<open>Number.isNaN\<close>
  does not report. The test \<open>!start.isValid || !end.isValid || end <= start\<close> is read
  from left to right. \<open>None\<close> is the source's \<open>null\<close>.
\<close>

definition hourMinute :: "string \<Rightarrow> (int option \<times> int option option)" where
  "hourMinute t =
     (case map Number (split t CHR '':'') of
        [] \<Rightarrow> (None, None)
      | [h] \<Rightarrow> (h, None)
      | h # m # _ \<Rightarrow> (h, Some m))"

definition intervalFromStrings :: "instant \<Rightarrow> string \<Rightarrow> string \<Rightarrow> interval option" where
  "intervalFromStrings day startTime endTime =
     (case (hourMinute startTime, hourMinute endTime) of
        ((Some startHour, startMinute), (Some endHour, endMinute)) \<Rightarrow>
          (if startMinute = Some None \<or> endMinute = Some None then None
           else
             let start = set_time day startHour (case startMinute of None \<Rightarrow> None | Some m \<Rightarrow> m);
                 end' = set_time day endHour (case endMinute of None \<Rightarrow> None | Some m \<Rightarrow> m)
             in if \<not> isValid start then None
                else if \<not> isValid end' then None
                else if end' \<le> start then None
                else Some \<lparr>istart = start, iend = end'\<rparr>)
      | _ \<Rightarrow> None)"

section \<open>Errors\<close>

text \<open>
  The NestJS exceptions the service throws, each with its message (accents of the
  Spanish messages dropped).
\<close>

datatype exception_class = NotFoundException | BadRequestException | ForbiddenException

type_synonym error = "exception_class \<times> string"

section \<open>The store\<close>

datatype AppointmentStatus = BOOKED | CONFIRMED | CANCELLED | COMPLETED

record business =
  b_id :: string
  b_ownerId :: string
  b_timezone :: string

record service =
  s_id :: string
  s_businessId :: string
  s_durationMin :: int

record availabilityRule =
  r_businessId :: string
  r_dayOfWeek :: int
  r_startTime :: string
  r_endTime :: string

record availabilityException =
  e_businessId :: string
  e_date :: instant
  e_isClosed :: bool
  e_startTime :: "string option"
  e_endTime :: "string option"

text \<open>The key of an appointment is generated on insertion; it is modelled as a counter.\<close>

record appointment =
  a_id :: nat
  a_businessId :: string
  a_serviceId :: string
  a_customerId :: string
  a_staffId :: "string option"
  a_startAt :: instant
  a_endAt :: instant
  a_customerNote :: "string option"
  a_status :: AppointmentStatus

text \<open>
  The tables the booking logic reads and writes. Of the two user tables only the keys
  matter here.
\<close>

record db =
  businesses :: "business list"
  services :: "service list"
  userClients :: "string list"
  userBusinesses :: "string list"
  availabilityRules :: "availabilityRule list"
  availabilityExceptions :: "availabilityException list"
  appointments :: "appointment list"
  nextId :: nat

text \<open>JavaScript truthiness of an optional text: neither absent nor empty.\<close>

definition truthy :: "string option \<Rightarrow> bool" where
  "truthy v = (case v of None \<Rightarrow> False | Some s \<Rightarrow> s \<noteq> [])"

section \<open>Conflict test\<close>

text \<open>\<open>overlaps(start, end, existingStart, existingEnd, timezone, targetStaffId, existingStaffId)\<close>.\<close>

definition overlaps ::
  "instant \<Rightarrow> instant \<Rightarrow> instant \<Rightarrow> instant \<Rightarrow> string option \<Rightarrow> string option \<Rightarrow> bool" where
  "overlaps start end' existingStart existingEnd targetStaffId existingStaffId =
     (if truthy targetStaffId \<and> (truthy existingStaffId \<and> existingStaffId \<noteq> targetStaffId)
      then False
      else start < existingEnd \<and> end' > existingStart)"

section \<open>Queries\<close>

text \<open>\<open>findUnique({ where: { id } })\<close> on the business and service tables.\<close>

definition findBusiness :: "db \<Rightarrow> string \<Rightarrow> business option" where
  "findBusiness d ident = find (\<lambda>b. b_id b = ident) (businesses d)"

definition findService :: "db \<Rightarrow> string \<Rightarrow> service option" where
  "findService d ident = find (\<lambda>s. s_id s = ident) (services d)"

definition findAppointment :: "db \<Rightarrow> nat \<Rightarrow> appointment option" where
  "findAppointment d ident = find (\<lambda>a. a_id a = ident) (appointments d)"

text \<open>
  The three queries of \<open>getDailyContext\<close>: the rules of the weekday ordered by
  \<open>startTime\<close>, the first exception dated within the day, and the non-cancelled
  appointments of the business that start within the day. \<open>findFirst\<close> has no
  \<open>orderBy\<close>; the model takes the rows in the order of insertion.
\<close>

definition findRules :: "db \<Rightarrow> string \<Rightarrow> int \<Rightarrow> availabilityRule list" where
  "findRules d businessId dayOfWeek =
     sort_key r_startTime
       (filter (\<lambda>r. r_businessId r = businessId \<and> r_dayOfWeek r = dayOfWeek)
          (availabilityRules d))"

definition findFirstException :: "db \<Rightarrow> string \<Rightarrow> instant \<Rightarrow> availabilityException option" where
  "findFirstException d businessId day =
     find (\<lambda>e. e_businessId e = businessId \<and> day \<le> e_date e \<and> e_date e < plus_days day 1)
       (availabilityExceptions d)"

definition findAppointments :: "db \<Rightarrow> string \<Rightarrow> instant \<Rightarrow> appointment list" where
  "findAppointments d businessId day =
     filter (\<lambda>a. a_businessId a = businessId
                 \<and> day \<le> a_startAt a \<and> a_startAt a < plus_days day 1
                 \<and> a_status a \<noteq> CANCELLED)
       (appointments d)"

section \<open>Availability rules and exceptions\<close>

definition assertBusinessAccess :: "db \<Rightarrow> string \<Rightarrow> string option \<Rightarrow> error + business" where
  "assertBusinessAccess d businessId actorId =
     (case findBusiness d businessId of
        None \<Rightarrow> Inl (NotFoundException, ''Negocio no encontrado'')
      | Some business \<Rightarrow>
          if truthy actorId \<and> Some (b_ownerId business) \<noteq> actorId
          then Inl (ForbiddenException, ''Solo el propietario puede modificar el negocio'')
          else Inr business)"

text \<open>\<open>DateTime.fromISO("2020-01-01")\<close>, the reference day of \<open>assertValidTimeRange\<close>.\<close>

definition fakeDay :: instant where
  "fakeDay = 18262 * MS_PER_DAY"

definition assertValidTimeRange :: "string \<Rightarrow> string \<Rightarrow> error + unit" where
  "assertValidTimeRange startTime endTime =
     (case intervalFromStrings fakeDay startTime endTime of
        None \<Rightarrow> Inl (BadRequestException, ''Rango de horario invalido'')
      | Some _ \<Rightarrow> Inr ())"

record availabilityRuleInput =
  ri_dayOfWeek :: int
  ri_startTime :: string
  ri_endTime :: string

definition addAvailabilityRule ::
  "db \<Rightarrow> string \<Rightarrow> availabilityRuleInput \<Rightarrow> string option \<Rightarrow> error + (availabilityRule \<times> db)" where
  "addAvailabilityRule d businessId input actorId =
     (case assertBusinessAccess d businessId actorId of
        Inl err \<Rightarrow> Inl err
      | Inr _ \<Rightarrow>
          if ri_dayOfWeek input < 0 \<or> ri_dayOfWeek input > 6
          then Inl (BadRequestException, ''dayOfWeek debe estar entre 0 (domingo) y 6 (sabado)'')
          else
            (case assertValidTimeRange (ri_startTime input) (ri_endTime input) of
               Inl err \<Rightarrow> Inl err
             | Inr _ \<Rightarrow>
                 let rule = \<lparr>r_businessId = businessId, r_dayOfWeek = ri_dayOfWeek input,
                             r_startTime = ri_startTime input, r_endTime = ri_endTime input\<rparr>
                 in Inr (rule, d\<lparr>availabilityRules := availabilityRules d @ [rule]\<rparr>)))"

text \<open>
  A date or date-time text of a request is given as the instant
  \<open>DateTime.fromISO(text, { zone })\<close> reads from it, \<open>None\<close> when the result is not
  valid.
\<close>

record availabilityExceptionInput =
  ei_date :: "instant option"
  ei_isClosed :: "bool option"
  ei_startTime :: "string option"
  ei_endTime :: "string option"

definition addAvailabilityException ::
  "db \<Rightarrow> string \<Rightarrow> availabilityExceptionInput \<Rightarrow> string option
     \<Rightarrow> error + (availabilityException \<times> db)" where
  "addAvailabilityException d businessId input actorId =
     (case assertBusinessAccess d businessId actorId of
        Inl err \<Rightarrow> Inl err
      | Inr business \<Rightarrow>
          (case ei_date input of
             None \<Rightarrow> Inl (BadRequestException, ''Fecha invalida'')
           | Some t \<Rightarrow>
               let day = startOfDay t;
                   checked =
                     (if ei_isClosed input \<noteq> Some True then
                        (if \<not> (truthy (ei_startTime input) \<and> truthy (ei_endTime input))
                         then Inl (BadRequestException,
                                ''startTime y endTime son requeridos cuando isClosed es false'')
                         else assertValidTimeRange (case ei_startTime input of None \<Rightarrow> [] | Some s \<Rightarrow> s)
                                (case ei_endTime input of None \<Rightarrow> [] | Some s \<Rightarrow> s))
                      else Inr ())
               in (case checked of
                     Inl err \<Rightarrow> Inl err
                   | Inr _ \<Rightarrow>
                       let ex = \<lparr>e_businessId = businessId, e_date = day,
                                 e_isClosed = (case ei_isClosed input of None \<Rightarrow> True | Some c \<Rightarrow> c),
                                 e_startTime = ei_startTime input, e_endTime = ei_endTime input\<rparr>
                       in Inr (ex, d\<lparr>availabilityExceptions := availabilityExceptions d @ [ex]\<rparr>))))"

section \<open>Resolving the open intervals of a day\<close>

record dailyContext =
  c_business :: business
  c_intervals :: "interval list"
  c_appointments :: "appointment list"
  c_day :: instant

text \<open>
  The two steps of \<open>getDailyContext\<close> on the fetched rows: the intervals of the
  rules, dropping the rules that give none, and the override by the exception. An
  open exception that lacks a time leaves the intervals of the rules as they are.
\<close>

definition ruleIntervals :: "instant \<Rightarrow> availabilityRule list \<Rightarrow> interval list" where
  "ruleIntervals day rules =
     List.map_filter (\<lambda>rule. intervalFromStrings day (r_startTime rule) (r_endTime rule)) rules"

definition applyException ::
  "instant \<Rightarrow> availabilityException option \<Rightarrow> interval list \<Rightarrow> interval list" where
  "applyException day exception intervals =
     (case exception of
        None \<Rightarrow> intervals
      | Some ex \<Rightarrow>
          if e_isClosed ex then []
          else
            (case (e_startTime ex, e_endTime ex) of
               (Some startTime, Some endTime) \<Rightarrow>
                 if startTime \<noteq> [] \<and> endTime \<noteq> [] then
                   (case intervalFromStrings day startTime endTime of
                      None \<Rightarrow> []
                    | Some override \<Rightarrow> [override])
                 else intervals
             | _ \<Rightarrow> intervals))"

definition getDailyContext :: "db \<Rightarrow> string \<Rightarrow> instant option \<Rightarrow> error + dailyContext" where
  "getDailyContext d businessId date =
     (case findBusiness d businessId of
        None \<Rightarrow> Inl (NotFoundException, ''Negocio no encontrado'')
      | Some business \<Rightarrow>
          (case date of
             None \<Rightarrow> Inl (BadRequestException, ''Fecha invalida'')
           | Some t \<Rightarrow>
               let day = startOfDay t;
                   dayOfWeek = (if weekday day = 7 then 0 else weekday day);
                   rules = findRules d businessId dayOfWeek;
                   exception = findFirstException d businessId day;
                   appts = findAppointments d businessId day;
                   intervals = applyException day exception (ruleIntervals day rules)
               in Inr \<lparr>c_business = business, c_intervals = intervals,
                        c_appointments = appts, c_day = day\<rparr>))"

section \<open>Slot generation\<close>

definition DEFAULT_STEP_MINUTES :: int where
  "DEFAULT_STEP_MINUTES = 15"

record availabilityRequest =
  q_date :: "instant option"
  q_serviceId :: string
  q_stepMinutes :: "int option"
  q_staffId :: "string option"

record slot =
  sl_startAt :: instant
  sl_endAt :: instant

record availability =
  v_date :: instant
  v_serviceDurationMin :: int
  v_stepMinutes :: int
  v_slots :: "slot list"

text \<open>\<open>params.stepMinutes || DEFAULT_STEP_MINUTES\<close>: an absent or zero step is the default.\<close>

definition stepOrDefault :: "int option \<Rightarrow> int" where
  "stepOrDefault stepMinutes =
     (case stepMinutes of None \<Rightarrow> DEFAULT_STEP_MINUTES
      | Some n \<Rightarrow> if n = 0 then DEFAULT_STEP_MINUTES else n)"

text \<open>\<open>context.appointments.some((appt) => this.overlaps(...))\<close>.\<close>

definition hasConflict :: "appointment list \<Rightarrow> instant \<Rightarrow> instant \<Rightarrow> string option \<Rightarrow> bool" where
  "hasConflict appts start end' staffId =
     list_ex (\<lambda>appt. overlaps start end' (a_startAt appt) (a_endAt appt) staffId (a_staffId appt))
       appts"

text \<open>
  The \<open>while\<close> loop over one interval, with the cursor and the slots pushed so far.
  Nothing in the service keeps the step positive, so the loop need not end: \<open>None\<close>
  is a run that never returns.
\<close>

partial_function (option) walkInterval ::
  "int \<Rightarrow> int \<Rightarrow> instant \<Rightarrow> appointment list \<Rightarrow> string option \<Rightarrow> instant
     \<Rightarrow> slot list \<Rightarrow> instant \<Rightarrow> slot list option" where
  "walkInterval serviceDuration stepMinutes now appts staffId intervalEnd slots cursor =
     (if plus_minutes cursor serviceDuration \<le> intervalEnd then
        let candidateStart = cursor;
            candidateEnd = plus_minutes cursor serviceDuration;
            isPast = (candidateStart \<le> minus_minutes now 1);
            conflict = hasConflict appts candidateStart candidateEnd staffId;
            slots' = (if \<not> isPast \<and> \<not> conflict
                      then slots @ [\<lparr>sl_startAt = candidateStart, sl_endAt = candidateEnd\<rparr>]
                      else slots)
        in walkInterval serviceDuration stepMinutes now appts staffId intervalEnd slots'
             (plus_minutes cursor stepMinutes)
      else Some slots)"

declare walkInterval.simps [code]

text \<open>The \<open>for\<close> loop over the intervals of the context.\<close>

fun walkIntervals ::
  "int \<Rightarrow> int \<Rightarrow> instant \<Rightarrow> appointment list \<Rightarrow> string option \<Rightarrow> interval list
     \<Rightarrow> slot list \<Rightarrow> slot list option" where
  "walkIntervals serviceDuration stepMinutes now appts staffId [] slots = Some slots"
| "walkIntervals serviceDuration stepMinutes now appts staffId (interval # rest) slots =
     (case walkInterval serviceDuration stepMinutes now appts staffId (iend interval) slots
             (istart interval) of
        None \<Rightarrow> None
      | Some slots' \<Rightarrow> walkIntervals serviceDuration stepMinutes now appts staffId rest slots')"

text \<open>
  \<open>getAvailability(businessId, params)\<close>, with the reading of the clock
  \<open>DateTime.now()\<close> as the argument \<open>now\<close>.
\<close>

definition getAvailability ::
  "db \<Rightarrow> instant \<Rightarrow> string \<Rightarrow> availabilityRequest \<Rightarrow> (error + availability) option" where
  "getAvailability d now businessId params =
     (case getDailyContext d businessId (q_date params) of
        Inl err \<Rightarrow> Some (Inl err)
      | Inr context \<Rightarrow>
          (case findService d (q_serviceId params) of
             None \<Rightarrow> Some (Inl (NotFoundException, ''Servicio no encontrado''))
           | Some service \<Rightarrow>
               if s_businessId service \<noteq> businessId
               then Some (Inl (BadRequestException, ''El servicio no pertenece al negocio''))
               else
                 let serviceDuration = s_durationMin service;
                     stepMinutes = stepOrDefault (q_stepMinutes params)
                 in (case walkIntervals serviceDuration stepMinutes now (c_appointments context)
                            (q_staffId params) (c_intervals context) [] of
                       None \<Rightarrow> None
                     | Some slots \<Rightarrow>
                         Some (Inr \<lparr>v_date = c_day context, v_serviceDurationMin = serviceDuration,
                                    v_stepMinutes = stepMinutes, v_slots = slots\<rparr>))))"

section \<open>Booking and cancelling\<close>

record createAppointmentInput =
  ci_businessId :: string
  ci_serviceId :: string
  ci_startAt :: "instant option"
  ci_staffId :: "string option"
  ci_customerNote :: "string option"

text \<open>\<open>context.intervals.some((interval) => start >= interval.start && end <= interval.end)\<close>.\<close>

definition fitsAvailability :: "interval list \<Rightarrow> instant \<Rightarrow> instant \<Rightarrow> bool" where
  "fitsAvailability intervals start end' =
     list_ex (\<lambda>interval. start \<ge> istart interval \<and> end' \<le> iend interval) intervals"

definition createAppointment ::
  "db \<Rightarrow> createAppointmentInput \<Rightarrow> string \<Rightarrow> error + (appointment \<times> db)" where
  "createAppointment d input customerId =
     (case findBusiness d (ci_businessId input) of
        None \<Rightarrow> Inl (NotFoundException, ''Negocio no encontrado'')
      | Some business \<Rightarrow>
     (case findService d (ci_serviceId input) of
        None \<Rightarrow> Inl (NotFoundException, ''Servicio no encontrado'')
      | Some service \<Rightarrow>
     if s_businessId service \<noteq> ci_businessId input
     then Inl (BadRequestException, ''El servicio no pertenece al negocio indicado'')
     else if customerId \<notin> set (userClients d)
     then Inl (NotFoundException, ''Cliente no encontrado'')
     else if truthy (ci_staffId input) \<and> ci_staffId input \<notin> set (map Some (userBusinesses d))
     then Inl (NotFoundException, ''Staff no encontrado'')
     else
     (case ci_startAt input of
        None \<Rightarrow> Inl (BadRequestException, ''Fecha de inicio invalida'')
      | Some start \<Rightarrow>
          let end' = plus_minutes start (s_durationMin service) in
          (case getDailyContext d (ci_businessId input) (Some start) of
             Inl err \<Rightarrow> Inl err
           | Inr context \<Rightarrow>
               if \<not> fitsAvailability (c_intervals context) start end'
               then Inl (BadRequestException, ''Horario fuera de la disponibilidad del negocio'')
               else if hasConflict (c_appointments context) start end' (ci_staffId input)
               then Inl (BadRequestException, ''Existe otra cita en ese horario'')
               else
                 let created = \<lparr>a_id = nextId d, a_businessId = ci_businessId input,
                                 a_serviceId = ci_serviceId input, a_customerId = customerId,
                                 a_staffId = ci_staffId input, a_startAt = start, a_endAt = end',
                                 a_customerNote = ci_customerNote input, a_status = BOOKED\<rparr>
                 in Inr (created, d\<lparr>appointments := appointments d @ [created],
                                     nextId := Suc (nextId d)\<rparr>)))))"

datatype actor_kind = Client | Business

record actor =
  ac_id :: string
  ac_kind :: actor_kind

text \<open>\<open>appointment.update({ where: { id }, data: { status: CANCELLED } })\<close>.\<close>

definition setCancelled :: "db \<Rightarrow> nat \<Rightarrow> db" where
  "setCancelled d ident =
     d\<lparr>appointments :=
         map (\<lambda>a. if a_id a = ident then a\<lparr>a_status := CANCELLED\<rparr> else a) (appointments d)\<rparr>"

definition cancelAppointment :: "db \<Rightarrow> nat \<Rightarrow> actor \<Rightarrow> error + (appointment \<times> db)" where
  "cancelAppointment d ident act =
     (case findAppointment d ident of
        None \<Rightarrow> Inl (NotFoundException, ''Cita no encontrada'')
      | Some appointment \<Rightarrow>
          if a_status appointment = CANCELLED then Inr (appointment, d)
          else if ac_kind act = Client \<and> a_customerId appointment \<noteq> ac_id act
          then Inl (ForbiddenException, ''Solo el cliente que reservo puede cancelar'')
          else
            (case (if ac_kind act = Business
                   then (case assertBusinessAccess d (a_businessId appointment) (Some (ac_id act)) of
                           Inl err \<Rightarrow> Some err
                         | Inr _ \<Rightarrow> None)
                   else None) of
               Some err \<Rightarrow> Inl err
             | None \<Rightarrow> Inr (appointment\<lparr>a_status := CANCELLED\<rparr>, setCancelled d ident)))"

section \<open>Reachable stores\<close>

text \<open>
  The stores the operations of the model reach. A store starts with no rule, exception
  or appointment; the four writing operations of the booking logic change it, and the
  account and business management (outside the booking logic) may change the other
  tables at any time. Where the time texts are written with decimal digits the
  operations of the model are those of the service.
\<close>

inductive reachable :: "db \<Rightarrow> bool" where
  initial:
    "availabilityRules d = [] \<Longrightarrow> availabilityExceptions d = [] \<Longrightarrow> appointments d = []
       \<Longrightarrow> reachable d"
| managed:
    "reachable d \<Longrightarrow>
       reachable (d\<lparr>businesses := bs, services := ss, userClients := cs, userBusinesses := us\<rparr>)"
| rule_added:
    "reachable d \<Longrightarrow> addAvailabilityRule d businessId ruleInput actorId = Inr (rule, d')
       \<Longrightarrow> reachable d'"
| exception_added:
    "reachable d \<Longrightarrow> addAvailabilityException d businessId exInput actorId = Inr (ex, d')
       \<Longrightarrow> reachable d'"
| booked:
    "reachable d \<Longrightarrow> createAppointment d input customerId = Inr (created, d')
       \<Longrightarrow> reachable d'"
| cancelled:
    "reachable d \<Longrightarrow> cancelAppointment d ident act = Inr (appointment, d')
       \<Longrightarrow> reachable d'"

section \<open>Auxiliary predicates\<close>

text \<open>A slot that the conflict test clears against every appointment of a list.\<close>

definition slotFree :: "appointment list \<Rightarrow> string option \<Rightarrow> slot \<Rightarrow> bool" where
  "slotFree appts staffId s = (\<not> hasConflict appts (sl_startAt s) (sl_endAt s) staffId)"

text \<open>
  The overlap invariant of the store: no two appointments of one business, neither of
  them cancelled, that name the same staff member or of which one names none, have
  overlapping intervals \<open>[startAt, endAt)\<close>.
\<close>

definition conflicting :: "appointment \<Rightarrow> appointment \<Rightarrow> bool" where
  "conflicting a b =
     (a_businessId a = a_businessId b \<and> a_status a \<noteq> CANCELLED \<and> a_status b \<noteq> CANCELLED \<and>
      \<not> (truthy (a_staffId a) \<and> truthy (a_staffId b) \<and> a_staffId a \<noteq> a_staffId b) \<and>
      a_startAt a < a_endAt b \<and> a_startAt b < a_endAt a)"

definition noDoubleBooking :: "db \<Rightarrow> bool" where
  "noDoubleBooking d = sorted_wrt (\<lambda>a b. \<not> conflicting a b) (appointments d)"

text \<open>
  An "HH:MM" text of decimal digits that \<open>set_time\<close> places no later than the
  midnight that ends the day, and a store all of whose rules and exceptions end so.
\<close>

definition timeInDay :: "string \<Rightarrow> bool" where
  "timeInDay t =
     (case hourMinute t of
        (Some h, None) \<Rightarrow> h \<le> 24
      | (Some h, Some (Some m)) \<Rightarrow> h * 60 + m \<le> 1440
      | _ \<Rightarrow> False)"

definition scheduleInDay :: "db \<Rightarrow> bool" where
  "scheduleInDay d =
     (list_all (\<lambda>r. timeInDay (r_endTime r)) (availabilityRules d) \<and>
      list_all (\<lambda>e. case e_endTime e of None \<Rightarrow> True | Some t \<Rightarrow> timeInDay t)
        (availabilityExceptions d))"

text \<open>An appointment that ends no later than the midnight after its start.\<close>

definition endsInStartDay :: "appointment \<Rightarrow> bool" where
  "endsInStartDay a = (a_endAt a \<le> plus_days (startOfDay (a_startAt a)) 1)"

section \<open>Example data\<close>

text \<open>
  A hair salon with one 60-minute service, two clients and two business users.
  \<open>monday\<close> is 1970-01-05, 00:00; \<open>at day h m\<close> is the time \<open>h:m\<close> of a day.
\<close>

definition monday :: instant where
  "monday = 4 * MS_PER_DAY"

definition at :: "instant \<Rightarrow> int \<Rightarrow> int \<Rightarrow> instant" where
  "at day h m = day + h * MS_PER_HOUR + m * MS_PER_MINUTE"

definition emptySalon :: db where
  "emptySalon =
     \<lparr>businesses = [\<lparr>b_id = ''salon'', b_ownerId = ''owner'', b_timezone = ''Asia/Tokyo''\<rparr>],
      services = [\<lparr>s_id = ''corte'', s_businessId = ''salon'', s_durationMin = 60\<rparr>],
      userClients = [''ana'', ''luis''],
      userBusinesses = [''owner'', ''marta''],
      availabilityRules = [],
      availabilityExceptions = [],
      appointments = [],
      nextId = 0\<rparr>"

text \<open>The salon open on Mondays from 09:00 to 18:00.\<close>

definition salon :: db where
  "salon =
     emptySalon\<lparr>availabilityRules :=
       [\<lparr>r_businessId = ''salon'', r_dayOfWeek = 1, r_startTime = ''09:00'', r_endTime = ''18:00''\<rparr>]\<rparr>"

definition booking :: "instant \<Rightarrow> createAppointmentInput" where
  "booking start =
     \<lparr>ci_businessId = ''salon'', ci_serviceId = ''corte'', ci_startAt = Some start,
      ci_staffId = None, ci_customerNote = None\<rparr>"

definition appointmentOf :: "nat \<Rightarrow> string \<Rightarrow> instant \<Rightarrow> AppointmentStatus \<Rightarrow> appointment" where
  "appointmentOf ident customerId start status =
     \<lparr>a_id = ident, a_businessId = ''salon'', a_serviceId = ''corte'', a_customerId = customerId,
      a_staffId = None, a_startAt = start, a_endAt = start + MS_PER_HOUR,
      a_customerNote = None, a_status = status\<rparr>"

text \<open>The salon with Ana's appointment on Monday at 13:00, booked and cancelled.\<close>

definition bookedSalon :: db where
  "bookedSalon =
     salon\<lparr>appointments := [appointmentOf 0 ''ana'' (at monday 13 0) BOOKED], nextId := 1\<rparr>"

definition cancelledSalon :: db where
  "cancelledSalon =
     salon\<lparr>appointments := [appointmentOf 0 ''ana'' (at monday 13 0) CANCELLED], nextId := 1\<rparr>"

definition luis :: actor where
  "luis = \<lparr>ac_id = ''luis'', ac_kind = Client\<rparr>"

definition ana :: actor where
  "ana = \<lparr>ac_id = ''ana'', ac_kind = Client\<rparr>"

text \<open>
  Exceptions for that Monday: the day closed, and the day open from 10:00 to 12:00;
  the requests that add them; and the salon (with its Monday rule from 09:00 to
  18:00) holding the one, the other, and both in either order.
\<close>

definition closedMonday :: availabilityException where
  "closedMonday =
     \<lparr>e_businessId = ''salon'', e_date = monday, e_isClosed = True,
      e_startTime = None, e_endTime = None\<rparr>"

definition shortMonday :: availabilityException where
  "shortMonday =
     \<lparr>e_businessId = ''salon'', e_date = monday, e_isClosed = False,
      e_startTime = Some ''10:00'', e_endTime = Some ''12:00''\<rparr>"

definition closeMonday :: availabilityExceptionInput where
  "closeMonday =
     \<lparr>ei_date = Some (at monday 8 0), ei_isClosed = Some True,
      ei_startTime = None, ei_endTime = None\<rparr>"

definition shortenMonday :: availabilityExceptionInput where
  "shortenMonday =
     \<lparr>ei_date = Some (at monday 8 0), ei_isClosed = Some False,
      ei_startTime = Some ''10:00'', ei_endTime = Some ''12:00''\<rparr>"

definition closedSalon :: db where
  "closedSalon = salon\<lparr>availabilityExceptions := [closedMonday]\<rparr>"

definition shortSalon :: db where
  "shortSalon = salon\<lparr>availabilityExceptions := [shortMonday]\<rparr>"

definition shortThenClosedSalon :: db where
  "shortThenClosedSalon = salon\<lparr>availabilityExceptions := [shortMonday, closedMonday]\<rparr>"

definition closedThenShortSalon :: db where
  "closedThenShortSalon = salon\<lparr>availabilityExceptions := [closedMonday, shortMonday]\<rparr>"

text \<open>The context of that Monday with the given open intervals and no appointment.\<close>

definition mondayContext :: "interval list \<Rightarrow> dailyContext" where
  "mondayContext intervals =
     \<lparr>c_business = \<lparr>b_id = ''salon'', b_ownerId = ''owner'', b_timezone = ''Asia/Tokyo''\<rparr>,
      c_intervals = intervals, c_appointments = [], c_day = monday\<rparr>"

text \<open>
  A salon open on Mondays from 22:00 to "26:00" and on Tuesdays from 00:00 to 02:00,
  and the two bookings that meet after midnight.
\<close>

definition lateMonday :: availabilityRuleInput where
  "lateMonday = \<lparr>ri_dayOfWeek = 1, ri_startTime = ''22:00'', ri_endTime = ''26:00''\<rparr>"

definition earlyTuesday :: availabilityRuleInput where
  "earlyTuesday = \<lparr>ri_dayOfWeek = 2, ri_startTime = ''00:00'', ri_endTime = ''02:00''\<rparr>"

definition lateSalon :: db where
  "lateSalon =
     emptySalon\<lparr>availabilityRules :=
       [\<lparr>r_businessId = ''salon'', r_dayOfWeek = 1, r_startTime = ''22:00'', r_endTime = ''26:00''\<rparr>]\<rparr>"

definition nightSalon :: db where
  "nightSalon =
     emptySalon\<lparr>availabilityRules :=
       [\<lparr>r_businessId = ''salon'', r_dayOfWeek = 1, r_startTime = ''22:00'', r_endTime = ''26:00''\<rparr>,
        \<lparr>r_businessId = ''salon'', r_dayOfWeek = 2, r_startTime = ''00:00'', r_endTime = ''02:00''\<rparr>]\<rparr>"

definition anaLate :: appointment where
  "anaLate = appointmentOf 0 ''ana'' (at monday 23 30) BOOKED"

definition luisEarly :: appointment where
  "luisEarly = appointmentOf 1 ''luis'' (at monday 24 0) BOOKED"

section \<open>Properties of the conflict test\<close>

text \<open>
  C3. When the candidate names a staff member and the existing appointment names a
  different one, the conflict test is false; in every other staff combination
  (candidate unstaffed, existing unstaffed, or the same staff on both) it is true
  exactly when \<open>start < existingEnd\<close> and \<open>end > existingStart\<close>.
\<close>

theorem overlaps_staff_scoped:
  "(truthy target \<and> truthy existing \<and> existing \<noteq> target \<longrightarrow>
      \<not> overlaps s e xs xe target existing) \<and>
   (\<not> truthy target \<or> \<not> truthy existing \<or> existing = target \<longrightarrow>
      overlaps s e xs xe target existing = (s < xe \<and> e > xs))"
  by (auto simp: overlaps_def)

theorem overlaps_staff_scoped_witness:
  "\<not> overlaps 0 60 30 90 (Some ''ana'') (Some ''luis'') \<and>
   overlaps 0 60 30 90 (Some ''ana'') (Some ''ana'') \<and>
   overlaps 0 60 30 90 None (Some ''luis'') \<and>
   overlaps 0 60 30 90 (Some ''ana'') None \<and>
   \<not> overlaps 0 60 60 90 None None"
  using overlaps_staff_scoped [of "Some ''ana''" "Some ''luis''" 0 60 30 90]
    overlaps_staff_scoped [of "Some ''ana''" "Some ''ana''" 0 60 30 90]
    overlaps_staff_scoped [of None "Some ''luis''" 0 60 30 90]
    overlaps_staff_scoped [of "Some ''ana''" None 0 60 30 90]
    overlaps_staff_scoped [of None None 0 60 60 90]
  by (simp add: truthy_def)


section \<open>Resolution of the open intervals\<close>

lemma getDailyContext_found:
  "findBusiness d businessId = Some business \<Longrightarrow>
   getDailyContext d businessId (Some t) =
     Inr \<lparr>c_business = business,
          c_intervals =
            applyException (startOfDay t) (findFirstException d businessId (startOfDay t))
              (ruleIntervals (startOfDay t)
                 (findRules d businessId
                    (if weekday (startOfDay t) = 7 then 0 else weekday (startOfDay t)))),
          c_appointments = findAppointments d businessId (startOfDay t),
          c_day = startOfDay t\<rparr>"
  by (simp add: getDailyContext_def Let_def)

lemma findFirstException_in_set:
  "findFirstException d businessId day = Some ex \<Longrightarrow> ex \<in> set (availabilityExceptions d)"
  by (auto simp: findFirstException_def find_Some_iff)

text \<open>
  C5, as amended. When the exception that the lookup of \<open>getDailyContext\<close> returns
  for the queried business and day (the first found, when several are stored for
  that day) is closed, the resolver returns no open interval, whatever rules the
  store holds for that weekday.
\<close>

theorem closed_exception_no_intervals:
  "findBusiness d businessId = Some business \<Longrightarrow>
   findFirstException d businessId (startOfDay t) = Some ex \<Longrightarrow>
   e_isClosed ex \<Longrightarrow>
   \<exists>context. getDailyContext d businessId (Some t) = Inr context \<and> c_intervals context = []"
  by (simp add: getDailyContext_found applyException_def)

text \<open>
  The salon has a Monday rule from 09:00 to 18:00 and a closed exception for the
  Monday: the rule alone gives an interval, the resolver gives none.
\<close>

theorem closed_exception_no_intervals_witness:
  "findBusiness closedSalon ''salon'' =
     Some \<lparr>b_id = ''salon'', b_ownerId = ''owner'', b_timezone = ''Asia/Tokyo''\<rparr> \<and>
   findFirstException closedSalon ''salon'' (startOfDay (at monday 10 0)) = Some closedMonday \<and>
   e_isClosed closedMonday \<and>
   ruleIntervals monday (findRules closedSalon ''salon'' 1) =
     [\<lparr>istart = at monday 9 0, iend = at monday 18 0\<rparr>] \<and>
   getDailyContext closedSalon ''salon'' (Some (at monday 10 0)) = Inr (mondayContext [])"
proof -
  have b: "findBusiness closedSalon ''salon'' =
     Some \<lparr>b_id = ''salon'', b_ownerId = ''owner'', b_timezone = ''Asia/Tokyo''\<rparr>"
    by code_simp
  have e: "findFirstException closedSalon ''salon'' (startOfDay (at monday 10 0)) =
     Some closedMonday"
    by code_simp
  have c: "e_isClosed closedMonday"
    by (simp add: closedMonday_def)
  have r: "ruleIntervals monday (findRules closedSalon ''salon'' 1) =
     [\<lparr>istart = at monday 9 0, iend = at monday 18 0\<rparr>]"
    by code_simp
  have g: "getDailyContext closedSalon ''salon'' (Some (at monday 10 0)) = Inr (mondayContext [])"
    by code_simp
  from closed_exception_no_intervals [OF b e c] b e c r g show ?thesis by simp
qed

text \<open>
  C5, as stated, fails. The owner adds for one Monday first an exception open from
  10:00 to 12:00 and then a closed one; both are stored. A closed exception then
  exists for the business and the day, and the resolver, which consults the first
  exception found, returns the interval from 10:00 to 12:00.
\<close>

theorem closed_exception_exists_counterexample:
  "addAvailabilityException salon ''salon'' shortenMonday (Some ''owner'') =
     Inr (shortMonday, shortSalon) \<and>
   addAvailabilityException shortSalon ''salon'' closeMonday (Some ''owner'') =
     Inr (closedMonday, shortThenClosedSalon) \<and>
   closedMonday \<in> set (availabilityExceptions shortThenClosedSalon) \<and>
   e_businessId closedMonday = ''salon'' \<and>
   e_date closedMonday = startOfDay (at monday 10 0) \<and>
   e_isClosed closedMonday \<and>
   getDailyContext shortThenClosedSalon ''salon'' (Some (at monday 10 0)) =
     Inr (mondayContext [\<lparr>istart = at monday 10 0, iend = at monday 12 0\<rparr>])"
  by code_simp

text \<open>
  Whatever the time texts are, \<open>addAvailabilityException\<close> refuses a request that
  is not closed and lacks a time, and what it stores is what the request gave, open
  only when the request said \<open>isClosed = false\<close>.
\<close>

lemma addAvailabilityException_requires_times:
  assumes "ei_isClosed exInput \<noteq> Some True"
    and "\<not> (truthy (ei_startTime exInput) \<and> truthy (ei_endTime exInput))"
  shows "\<exists>err. addAvailabilityException d businessId exInput actorId = Inl err"
  using assms
  by (auto simp: addAvailabilityException_def Let_def split: sum.splits option.splits)

lemma addAvailabilityException_stored:
  assumes "addAvailabilityException d businessId exInput actorId = Inr (stored, d')"
  shows "e_startTime stored = ei_startTime exInput \<and> e_endTime stored = ei_endTime exInput \<and>
         e_isClosed stored = (ei_isClosed exInput \<noteq> Some False) \<and>
         availabilityExceptions d' = availabilityExceptions d @ [stored]"
  using assms
  by (auto simp: addAvailabilityException_def Let_def
      split: sum.splits option.splits if_splits bool.splits)

text \<open>
  C6, as amended. When the exception that the lookup of \<open>getDailyContext\<close> returns
  for the queried business and day (the first found, when several are stored for
  that day) is not closed and carries both times of its override, the resolver
  returns exactly the one interval built from that start and end time, or no
  interval when the override is not a valid interval; the rules of the weekday
  contribute nothing. The service stores no other open exception:
  \<open>addAvailabilityException\<close> refuses every request that is not closed and lacks a
  time, and stores the times and the flag of the request.
\<close>

theorem open_exception_replaces_rules:
  assumes "findBusiness d businessId = Some business"
    and "findFirstException d businessId (startOfDay t) = Some ex"
    and "\<not> e_isClosed ex"
    and "e_startTime ex = Some startTime" and "startTime \<noteq> []"
    and "e_endTime ex = Some endTime" and "endTime \<noteq> []"
  shows "(\<exists>context.
            getDailyContext d businessId (Some t) = Inr context \<and>
            c_intervals context =
              (case intervalFromStrings (startOfDay t) startTime endTime of
                 None \<Rightarrow> []
               | Some override \<Rightarrow> [override])) \<and>
         (ei_isClosed exInput \<noteq> Some True \<and>
          \<not> (truthy (ei_startTime exInput) \<and> truthy (ei_endTime exInput)) \<longrightarrow>
            (\<exists>err. addAvailabilityException d0 businessId0 exInput actorId = Inl err)) \<and>
         (\<forall>stored d1.
            addAvailabilityException d0 businessId0 exInput actorId = Inr (stored, d1) \<longrightarrow>
              e_startTime stored = ei_startTime exInput \<and>
              e_endTime stored = ei_endTime exInput \<and>
              e_isClosed stored = (ei_isClosed exInput \<noteq> Some False))"
proof (intro conjI)
  show "\<exists>context.
          getDailyContext d businessId (Some t) = Inr context \<and>
          c_intervals context =
            (case intervalFromStrings (startOfDay t) startTime endTime of
               None \<Rightarrow> []
             | Some override \<Rightarrow> [override])"
    using assms by (simp add: getDailyContext_found applyException_def)
  show "ei_isClosed exInput \<noteq> Some True \<and>
        \<not> (truthy (ei_startTime exInput) \<and> truthy (ei_endTime exInput)) \<longrightarrow>
          (\<exists>err. addAvailabilityException d0 businessId0 exInput actorId = Inl err)"
    using addAvailabilityException_requires_times by blast
  show "\<forall>stored d1.
          addAvailabilityException d0 businessId0 exInput actorId = Inr (stored, d1) \<longrightarrow>
            e_startTime stored = ei_startTime exInput \<and>
            e_endTime stored = ei_endTime exInput \<and>
            e_isClosed stored = (ei_isClosed exInput \<noteq> Some False)"
    using addAvailabilityException_stored by blast
qed

text \<open>
  The salon has a Monday rule from 09:00 to 18:00 and, added by the owner, an
  exception open from 10:00 to 12:00 for the Monday: the rule alone gives the
  interval from 09:00 to 18:00, the resolver gives the interval from 10:00 to 12:00
  and nothing of the rule. A request that is not closed and has no end time is
  refused.
\<close>

theorem open_exception_replaces_rules_witness:
  "addAvailabilityException salon ''salon'' shortenMonday (Some ''owner'') =
     Inr (shortMonday, shortSalon) \<and>
   findFirstException shortSalon ''salon'' (startOfDay (at monday 10 0)) = Some shortMonday \<and>
   \<not> e_isClosed shortMonday \<and>
   e_startTime shortMonday = Some ''10:00'' \<and> e_endTime shortMonday = Some ''12:00'' \<and>
   ruleIntervals monday (findRules shortSalon ''salon'' 1) =
     [\<lparr>istart = at monday 9 0, iend = at monday 18 0\<rparr>] \<and>
   getDailyContext shortSalon ''salon'' (Some (at monday 10 0)) =
     Inr (mondayContext [\<lparr>istart = at monday 10 0, iend = at monday 12 0\<rparr>]) \<and>
   (\<exists>err. addAvailabilityException salon ''salon''
             \<lparr>ei_date = Some (at monday 8 0), ei_isClosed = Some False,
              ei_startTime = Some ''10:00'', ei_endTime = None\<rparr> (Some ''owner'') = Inl err)"
proof -
  let ?half = "\<lparr>ei_date = Some (at monday 8 0), ei_isClosed = Some False,
                ei_startTime = Some ''10:00'', ei_endTime = None\<rparr>"
  have a: "addAvailabilityException salon ''salon'' shortenMonday (Some ''owner'') =
     Inr (shortMonday, shortSalon)"
    by code_simp
  have b: "findBusiness shortSalon ''salon'' =
     Some \<lparr>b_id = ''salon'', b_ownerId = ''owner'', b_timezone = ''Asia/Tokyo''\<rparr>"
    by code_simp
  have e: "findFirstException shortSalon ''salon'' (startOfDay (at monday 10 0)) = Some shortMonday"
    by code_simp
  have c: "\<not> e_isClosed shortMonday"
    and st: "e_startTime shortMonday = Some ''10:00''" "''10:00'' \<noteq> []"
    and et: "e_endTime shortMonday = Some ''12:00''" "''12:00'' \<noteq> []"
    by (simp_all add: shortMonday_def)
  have r: "ruleIntervals monday (findRules shortSalon ''salon'' 1) =
     [\<lparr>istart = at monday 9 0, iend = at monday 18 0\<rparr>]"
    by code_simp
  have i: "intervalFromStrings (startOfDay (at monday 10 0)) ''10:00'' ''12:00'' =
     Some \<lparr>istart = at monday 10 0, iend = at monday 12 0\<rparr>"
    by code_simp
  have g: "getDailyContext shortSalon ''salon'' (Some (at monday 10 0)) =
     Inr (mondayContext [\<lparr>istart = at monday 10 0, iend = at monday 12 0\<rparr>])"
    by code_simp
  have h: "ei_isClosed ?half \<noteq> Some True \<and>
           \<not> (truthy (ei_startTime ?half) \<and> truthy (ei_endTime ?half))"
    by (simp add: truthy_def)
  from open_exception_replaces_rules
         [OF b e c st et, of ?half salon "''salon''" "Some ''owner''"]
       a e c st et r i g h
  show ?thesis by simp
qed

text \<open>
  C6, as stated, fails. The owner adds for one Monday first a closed exception and
  then one open from 10:00 to 12:00; both are stored. An open exception with a valid
  override then exists for the business and the day, and the resolver, which consults
  the first exception found, returns no interval.
\<close>

theorem open_exception_exists_counterexample:
  "addAvailabilityException salon ''salon'' closeMonday (Some ''owner'') =
     Inr (closedMonday, closedSalon) \<and>
   addAvailabilityException closedSalon ''salon'' shortenMonday (Some ''owner'') =
     Inr (shortMonday, closedThenShortSalon) \<and>
   shortMonday \<in> set (availabilityExceptions closedThenShortSalon) \<and>
   e_businessId shortMonday = ''salon'' \<and>
   e_date shortMonday = startOfDay (at monday 10 0) \<and>
   e_isClosed shortMonday = False \<and>
   intervalFromStrings (startOfDay (at monday 10 0)) ''10:00'' ''12:00'' =
     Some \<lparr>istart = at monday 10 0, iend = at monday 12 0\<rparr> \<and>
   getDailyContext closedThenShortSalon ''salon'' (Some (at monday 10 0)) =
     Inr (mondayContext [])"
  by code_simp

section \<open>Cancelling\<close>

lemma find_map_same_key:
  "(\<And>a. a_id (f a) = a_id a) \<Longrightarrow>
   find (\<lambda>a. a_id a = ident) (map f xs) = map_option f (find (\<lambda>a. a_id a = ident) xs)"
  by (induction xs) auto

lemma findAppointment_setCancelled:
  assumes "findAppointment d ident = Some appointment"
  shows "findAppointment (setCancelled d ident) ident = Some (appointment\<lparr>a_status := CANCELLED\<rparr>)"
proof -
  have k: "\<And>a. a_id (if a_id a = ident then a\<lparr>a_status := CANCELLED\<rparr> else a) = a_id a"
    by simp
  have "a_id appointment = ident"
    using assms by (auto simp: findAppointment_def find_Some_iff)
  then show ?thesis
    using assms
      find_map_same_key [of "\<lambda>a. if a_id a = ident then a\<lparr>a_status := CANCELLED\<rparr> else a"
        ident "appointments d", OF k]
    by (simp add: findAppointment_def setCancelled_def)
qed

lemma cancelAppointment_already:
  "findAppointment d ident = Some appointment \<Longrightarrow> a_status appointment = CANCELLED \<Longrightarrow>
   cancelAppointment d ident act = Inr (appointment, d)"
  by (simp add: cancelAppointment_def)

lemma cancelAppointment_result:
  "cancelAppointment d ident act = Inr (cancelled, d') \<Longrightarrow>
   findAppointment d' ident = Some cancelled \<and> a_status cancelled = CANCELLED"
  by (auto simp: cancelAppointment_def findAppointment_setCancelled
      split: option.splits if_splits sum.splits)

text \<open>
  C8, as amended. For a customer actor whose identifier differs from the customer of
  the appointment: when the appointment is not cancelled, \<open>cancelAppointment\<close>
  rejects as forbidden and the store stays as it is; when the appointment is already
  cancelled, the call returns it unchanged, with the store unchanged, before any
  check of the actor.
\<close>

theorem cancelAppointment_other_customer:
  assumes "findAppointment d ident = Some appointment"
    and "ac_kind act = Client"
    and "a_customerId appointment \<noteq> ac_id act"
  shows "(a_status appointment \<noteq> CANCELLED \<longrightarrow>
            cancelAppointment d ident act =
              Inl (ForbiddenException, ''Solo el cliente que reservo puede cancelar'')) \<and>
         (a_status appointment = CANCELLED \<longrightarrow>
            cancelAppointment d ident act = Inr (appointment, d))"
  using assms by (simp add: cancelAppointment_def)

theorem cancelAppointment_other_customer_witness:
  "findAppointment bookedSalon 0 = Some (appointmentOf 0 ''ana'' (at monday 13 0) BOOKED) \<and>
   ac_kind luis = Client \<and>
   a_customerId (appointmentOf 0 ''ana'' (at monday 13 0) BOOKED) \<noteq> ac_id luis \<and>
   cancelAppointment bookedSalon 0 luis =
     Inl (ForbiddenException, ''Solo el cliente que reservo puede cancelar'')"
proof -
  have f: "findAppointment bookedSalon 0 = Some (appointmentOf 0 ''ana'' (at monday 13 0) BOOKED)"
    by code_simp
  have k: "ac_kind luis = Client"
    by (simp add: luis_def)
  have c: "a_customerId (appointmentOf 0 ''ana'' (at monday 13 0) BOOKED) \<noteq> ac_id luis"
    by (simp add: luis_def appointmentOf_def)
  from cancelAppointment_other_customer [OF f k c] f k c show ?thesis
    by (simp add: appointmentOf_def)
qed

text \<open>
  C8, as stated, fails: Luis, a customer, cancels the already cancelled appointment of
  Ana and is answered with the appointment, not with a forbidden error.
\<close>

theorem cancelAppointment_other_customer_counterexample:
  "findAppointment cancelledSalon 0 = Some (appointmentOf 0 ''ana'' (at monday 13 0) CANCELLED) \<and>
   ac_kind luis = Client \<and>
   a_customerId (appointmentOf 0 ''ana'' (at monday 13 0) CANCELLED) \<noteq> ac_id luis \<and>
   cancelAppointment cancelledSalon 0 luis =
     Inr (appointmentOf 0 ''ana'' (at monday 13 0) CANCELLED, cancelledSalon)"
  by code_simp

text \<open>
  C9. Cancelling an appointment that is already cancelled succeeds, returns the
  appointment as it is and leaves the store as it is; and after a successful
  cancellation the appointment is cancelled, and cancelling it again (by any actor)
  returns the same appointment and the same store.
\<close>

theorem cancelAppointment_idempotent:
  "(findAppointment d ident = Some appointment \<and> a_status appointment = CANCELLED \<longrightarrow>
      cancelAppointment d ident act = Inr (appointment, d)) \<and>
   (cancelAppointment d ident act = Inr (cancelled, d') \<longrightarrow>
      a_status cancelled = CANCELLED \<and> cancelAppointment d' ident act' = Inr (cancelled, d'))"
  using cancelAppointment_already cancelAppointment_result by blast

theorem cancelAppointment_idempotent_witness:
  "cancelAppointment bookedSalon 0 ana =
     Inr (appointmentOf 0 ''ana'' (at monday 13 0) CANCELLED, cancelledSalon) \<and>
   cancelAppointment cancelledSalon 0 ana =
     Inr (appointmentOf 0 ''ana'' (at monday 13 0) CANCELLED, cancelledSalon) \<and>
   findAppointment cancelledSalon 0 = Some (appointmentOf 0 ''ana'' (at monday 13 0) CANCELLED) \<and>
   a_status (appointmentOf 0 ''ana'' (at monday 13 0) CANCELLED) = CANCELLED"
proof -
  have first: "cancelAppointment bookedSalon 0 ana =
     Inr (appointmentOf 0 ''ana'' (at monday 13 0) CANCELLED, cancelledSalon)"
    by code_simp
  have found: "findAppointment cancelledSalon 0 =
     Some (appointmentOf 0 ''ana'' (at monday 13 0) CANCELLED)"
    by code_simp
  have st: "a_status (appointmentOf 0 ''ana'' (at monday 13 0) CANCELLED) = CANCELLED"
    by (simp add: appointmentOf_def)
  from cancelAppointment_idempotent
         [of bookedSalon 0 "appointmentOf 0 ''ana'' (at monday 13 0) CANCELLED" ana
            "appointmentOf 0 ''ana'' (at monday 13 0) CANCELLED" cancelledSalon ana]
       first found st
  show ?thesis by simp
qed

section \<open>Booking\<close>

text \<open>
  What \<open>createAppointment\<close> does once the business, the service, the customer, the
  staff member and the start time of the request have been found valid.
\<close>

lemma createAppointment_checked:
  assumes "findBusiness d (ci_businessId input) = Some business"
    and "findService d (ci_serviceId input) = Some service"
    and "s_businessId service = ci_businessId input"
    and "customerId \<in> set (userClients d)"
    and "truthy (ci_staffId input) \<Longrightarrow> ci_staffId input \<in> set (map Some (userBusinesses d))"
    and "ci_startAt input = Some start"
    and "getDailyContext d (ci_businessId input) (Some start) = Inr ctx"
  shows "createAppointment d input customerId =
     (if \<not> fitsAvailability (c_intervals ctx) start (plus_minutes start (s_durationMin service))
      then Inl (BadRequestException, ''Horario fuera de la disponibilidad del negocio'')
      else if hasConflict (c_appointments ctx) start
                (plus_minutes start (s_durationMin service)) (ci_staffId input)
      then Inl (BadRequestException, ''Existe otra cita en ese horario'')
      else Inr (\<lparr>a_id = nextId d, a_businessId = ci_businessId input,
                  a_serviceId = ci_serviceId input, a_customerId = customerId,
                  a_staffId = ci_staffId input, a_startAt = start,
                  a_endAt = plus_minutes start (s_durationMin service),
                  a_customerNote = ci_customerNote input, a_status = BOOKED\<rparr>,
                d\<lparr>appointments := appointments d @
                     [\<lparr>a_id = nextId d, a_businessId = ci_businessId input,
                       a_serviceId = ci_serviceId input, a_customerId = customerId,
                       a_staffId = ci_staffId input, a_startAt = start,
                       a_endAt = plus_minutes start (s_durationMin service),
                       a_customerNote = ci_customerNote input, a_status = BOOKED\<rparr>],
                   nextId := Suc (nextId d)\<rparr>))"
  using assms by (auto simp: createAppointment_def Let_def)

lemma fitsAvailability_iff:
  "fitsAvailability intervals start end' =
     (\<exists>i \<in> set intervals. istart i \<le> start \<and> end' \<le> iend i)"
  by (simp add: fitsAvailability_def list_ex_iff)

lemma hasConflict_iff:
  "hasConflict appts start end' staffId =
     (\<exists>appt \<in> set appts.
        overlaps start end' (a_startAt appt) (a_endAt appt) staffId (a_staffId appt))"
  by (simp add: hasConflict_def list_ex_iff)

lemma getDailyContext_appointments:
  "getDailyContext d businessId (Some t) = Inr ctx \<Longrightarrow>
   set (c_appointments ctx) =
     {a \<in> set (appointments d). a_businessId a = businessId \<and> a_status a \<noteq> CANCELLED \<and>
        startOfDay t \<le> a_startAt a \<and> a_startAt a < plus_days (startOfDay t) 1}"
  by (auto simp: getDailyContext_def Let_def findAppointments_def split: option.splits)

text \<open>
  C2. For a request whose business, service, customer, staff member and start time are
  valid, with \<open>end = start + durationMin\<close>: \<open>createAppointment\<close> rejects when no
  resolved open interval of the day contains \<open>[start, end)\<close>; it rejects when a
  non-cancelled appointment of the business that starts within the day conflicts with
  \<open>[start, end)\<close> under the staff-scoped test; otherwise it appends to the store a new
  appointment with status \<open>BOOKED\<close>, the requested start and that end.
\<close>

theorem createAppointment_contract:
  assumes "findBusiness d (ci_businessId input) = Some business"
    and "findService d (ci_serviceId input) = Some service"
    and "s_businessId service = ci_businessId input"
    and "customerId \<in> set (userClients d)"
    and "truthy (ci_staffId input) \<Longrightarrow> ci_staffId input \<in> set (map Some (userBusinesses d))"
    and "ci_startAt input = Some start"
    and "getDailyContext d (ci_businessId input) (Some start) = Inr ctx"
    and "end' = plus_minutes start (s_durationMin service)"
    and "inside = (\<exists>i \<in> set (c_intervals ctx). istart i \<le> start \<and> end' \<le> iend i)"
    and "taken =
           (\<exists>a \<in> set (appointments d).
              a_businessId a = ci_businessId input \<and> a_status a \<noteq> CANCELLED \<and>
              startOfDay start \<le> a_startAt a \<and> a_startAt a < plus_days (startOfDay start) 1 \<and>
              overlaps start end' (a_startAt a) (a_endAt a) (ci_staffId input) (a_staffId a))"
  shows "(\<not> inside \<longrightarrow> (\<exists>err. createAppointment d input customerId = Inl err)) \<and>
         (taken \<longrightarrow> (\<exists>err. createAppointment d input customerId = Inl err)) \<and>
         (inside \<and> \<not> taken \<longrightarrow>
            (\<exists>created.
               createAppointment d input customerId =
                 Inr (created, d\<lparr>appointments := appointments d @ [created],
                                 nextId := Suc (nextId d)\<rparr>) \<and>
               a_status created = BOOKED \<and> a_startAt created = start \<and> a_endAt created = end' \<and>
               a_businessId created = ci_businessId input \<and>
               a_serviceId created = ci_serviceId input \<and>
               a_customerId created = customerId \<and> a_staffId created = ci_staffId input))"
proof -
  have fits: "fitsAvailability (c_intervals ctx) start end' = inside"
    using assms(9) by (simp add: fitsAvailability_iff)
  have conflict: "hasConflict (c_appointments ctx) start end' (ci_staffId input) = taken"
    unfolding hasConflict_iff assms(10) Bex_def getDailyContext_appointments [OF assms(7)]
    by blast
  show ?thesis
    using createAppointment_checked [OF assms(1-7)] fits conflict
    unfolding assms(8) [symmetric]
    by auto
qed

theorem createAppointment_contract_witness:
  "createAppointment salon (booking (at monday 10 0)) ''ana'' =
     Inr (appointmentOf 0 ''ana'' (at monday 10 0) BOOKED,
          salon\<lparr>appointments := [appointmentOf 0 ''ana'' (at monday 10 0) BOOKED], nextId := 1\<rparr>) \<and>
   (\<exists>err. createAppointment salon (booking (at monday 17 30)) ''ana'' = Inl err) \<and>
   (\<exists>err. createAppointment bookedSalon (booking (at monday 12 30)) ''luis'' = Inl err)"
proof -
  let ?b = "\<lparr>b_id = ''salon'', b_ownerId = ''owner'', b_timezone = ''Asia/Tokyo''\<rparr>"
  let ?s = "\<lparr>s_id = ''corte'', s_businessId = ''salon'', s_durationMin = 60\<rparr>"
  let ?open = "[\<lparr>istart = at monday 9 0, iend = at monday 18 0\<rparr>]"
  have staff: "truthy (ci_staffId (booking t)) \<Longrightarrow>
      ci_staffId (booking t) \<in> set (map Some (userBusinesses x))" for t and x :: db
    by (simp add: booking_def truthy_def)
  have b: "findBusiness salon (ci_businessId (booking t)) = Some ?b"
    "findBusiness bookedSalon (ci_businessId (booking t)) = Some ?b" for t
    unfolding booking_def by code_simp+
  have s: "findService salon (ci_serviceId (booking t)) = Some ?s"
    "findService bookedSalon (ci_serviceId (booking t)) = Some ?s" for t
    unfolding booking_def by code_simp+
  have sb: "s_businessId ?s = ci_businessId (booking t)" for t
    by (simp add: booking_def)
  have c: "''ana'' \<in> set (userClients salon)" "''luis'' \<in> set (userClients bookedSalon)"
    by (simp_all add: salon_def bookedSalon_def emptySalon_def)
  have st: "ci_startAt (booking t) = Some t" for t
    by (simp add: booking_def)
  have c1: "getDailyContext salon (ci_businessId (booking (at monday 10 0))) (Some (at monday 10 0)) =
      Inr \<lparr>c_business = ?b, c_intervals = ?open, c_appointments = [], c_day = monday\<rparr>"
    by code_simp
  have c2: "getDailyContext salon (ci_businessId (booking (at monday 17 30))) (Some (at monday 17 30)) =
      Inr \<lparr>c_business = ?b, c_intervals = ?open, c_appointments = [], c_day = monday\<rparr>"
    by code_simp
  have c3: "getDailyContext bookedSalon (ci_businessId (booking (at monday 12 30)))
        (Some (at monday 12 30)) =
      Inr \<lparr>c_business = ?b, c_intervals = ?open,
           c_appointments = [appointmentOf 0 ''ana'' (at monday 13 0) BOOKED], c_day = monday\<rparr>"
    by code_simp
  have n1: "(\<exists>i \<in> set ?open. istart i \<le> at monday 10 0 \<and> plus_minutes (at monday 10 0) 60 \<le> iend i)"
    "\<not> (\<exists>a \<in> set (appointments salon). P a)" for P
    by (simp_all add: at_def monday_def plus_minutes_def MS_PER_DAY_def MS_PER_HOUR_def
        MS_PER_MINUTE_def salon_def emptySalon_def)
  have n2: "\<not> (\<exists>i \<in> set ?open. istart i \<le> at monday 17 30 \<and> plus_minutes (at monday 17 30) 60 \<le> iend i)"
    by (simp add: at_def monday_def plus_minutes_def MS_PER_DAY_def MS_PER_HOUR_def
        MS_PER_MINUTE_def)
  have n3: "\<exists>a \<in> set (appointments bookedSalon).
              a_businessId a = ci_businessId (booking (at monday 12 30)) \<and> a_status a \<noteq> CANCELLED \<and>
              startOfDay (at monday 12 30) \<le> a_startAt a \<and>
              a_startAt a < plus_days (startOfDay (at monday 12 30)) 1 \<and>
              overlaps (at monday 12 30) (plus_minutes (at monday 12 30) 60) (a_startAt a) (a_endAt a)
                (ci_staffId (booking (at monday 12 30))) (a_staffId a)"
    by (simp add: bookedSalon_def appointmentOf_def booking_def at_def monday_def
        plus_minutes_def plus_days_def startOfDay_def overlaps_def truthy_def
        MS_PER_DAY_def MS_PER_HOUR_def MS_PER_MINUTE_def)
  have r1: "\<exists>created. createAppointment salon (booking (at monday 10 0)) ''ana'' =
       Inr (created, salon\<lparr>appointments := appointments salon @ [created],
                            nextId := Suc (nextId salon)\<rparr>) \<and>
       a_status created = BOOKED \<and> a_startAt created = at monday 10 0 \<and>
       a_endAt created = plus_minutes (at monday 10 0) 60 \<and>
       a_businessId created = ci_businessId (booking (at monday 10 0)) \<and>
       a_serviceId created = ci_serviceId (booking (at monday 10 0)) \<and>
       a_customerId created = ''ana'' \<and> a_staffId created = ci_staffId (booking (at monday 10 0))"
    using createAppointment_contract [OF b(1) s(1) sb c(1) staff st c1 refl refl refl] n1
    by simp
  have r2: "\<exists>err. createAppointment salon (booking (at monday 17 30)) ''ana'' = Inl err"
    using createAppointment_contract [OF b(1) s(1) sb c(1) staff st c2 refl refl refl] n2
    by simp
  have r3: "\<exists>err. createAppointment bookedSalon (booking (at monday 12 30)) ''luis'' = Inl err"
    using createAppointment_contract [OF b(2) s(2) sb c(2) staff st c3 refl refl refl] n3
    by simp
  have "createAppointment salon (booking (at monday 10 0)) ''ana'' =
     Inr (appointmentOf 0 ''ana'' (at monday 10 0) BOOKED,
          salon\<lparr>appointments := [appointmentOf 0 ''ana'' (at monday 10 0) BOOKED], nextId := 1\<rparr>)"
    by code_simp
  with r1 r2 r3 show ?thesis by blast
qed

text \<open>
  C7, as amended. For a request whose business, service, customer and staff member are
  valid: a slot taken by an existing non-cancelled appointment is rejected with a
  \<open>BadRequestException\<close> whose message is "Existe otra cita en ese horario", the
  same class of error as a slot outside availability and a start time that cannot be
  read; only the message tells the three apart.
\<close>

theorem createAppointment_taken_is_bad_request:
  assumes "findBusiness d (ci_businessId input) = Some business"
    and "findService d (ci_serviceId input) = Some service"
    and "s_businessId service = ci_businessId input"
    and "customerId \<in> set (userClients d)"
    and "truthy (ci_staffId input) \<Longrightarrow> ci_staffId input \<in> set (map Some (userBusinesses d))"
  shows "(ci_startAt input = None \<longrightarrow>
            createAppointment d input customerId =
              Inl (BadRequestException, ''Fecha de inicio invalida'')) \<and>
         (\<forall>start ctx.
            ci_startAt input = Some start \<and>
            getDailyContext d (ci_businessId input) (Some start) = Inr ctx \<longrightarrow>
            (\<not> fitsAvailability (c_intervals ctx) start (plus_minutes start (s_durationMin service))
               \<longrightarrow> createAppointment d input customerId =
                     Inl (BadRequestException, ''Horario fuera de la disponibilidad del negocio'')) \<and>
            (fitsAvailability (c_intervals ctx) start (plus_minutes start (s_durationMin service)) \<and>
             hasConflict (c_appointments ctx) start (plus_minutes start (s_durationMin service))
               (ci_staffId input)
               \<longrightarrow> createAppointment d input customerId =
                     Inl (BadRequestException, ''Existe otra cita en ese horario'')))"
proof (intro conjI allI impI)
  assume "ci_startAt input = None"
  then show "createAppointment d input customerId =
      Inl (BadRequestException, ''Fecha de inicio invalida'')"
    using assms by (auto simp: createAppointment_def)
next
  fix start ctx
  assume "ci_startAt input = Some start \<and>
      getDailyContext d (ci_businessId input) (Some start) = Inr ctx"
  then have eq: "createAppointment d input customerId =
     (if \<not> fitsAvailability (c_intervals ctx) start (plus_minutes start (s_durationMin service))
      then Inl (BadRequestException, ''Horario fuera de la disponibilidad del negocio'')
      else if hasConflict (c_appointments ctx) start
                (plus_minutes start (s_durationMin service)) (ci_staffId input)
      then Inl (BadRequestException, ''Existe otra cita en ese horario'')
      else Inr (\<lparr>a_id = nextId d, a_businessId = ci_businessId input,
                  a_serviceId = ci_serviceId input, a_customerId = customerId,
                  a_staffId = ci_staffId input, a_startAt = start,
                  a_endAt = plus_minutes start (s_durationMin service),
                  a_customerNote = ci_customerNote input, a_status = BOOKED\<rparr>,
                d\<lparr>appointments := appointments d @
                     [\<lparr>a_id = nextId d, a_businessId = ci_businessId input,
                       a_serviceId = ci_serviceId input, a_customerId = customerId,
                       a_staffId = ci_staffId input, a_startAt = start,
                       a_endAt = plus_minutes start (s_durationMin service),
                       a_customerNote = ci_customerNote input, a_status = BOOKED\<rparr>],
                   nextId := Suc (nextId d)\<rparr>))"
    using createAppointment_checked [OF assms] by blast
  {
    assume "\<not> fitsAvailability (c_intervals ctx) start (plus_minutes start (s_durationMin service))"
    then show "createAppointment d input customerId =
        Inl (BadRequestException, ''Horario fuera de la disponibilidad del negocio'')"
      using eq by simp
  }
  {
    assume "fitsAvailability (c_intervals ctx) start (plus_minutes start (s_durationMin service)) \<and>
        hasConflict (c_appointments ctx) start (plus_minutes start (s_durationMin service))
          (ci_staffId input)"
    then show "createAppointment d input customerId =
        Inl (BadRequestException, ''Existe otra cita en ese horario'')"
      using eq by simp
  }
qed

theorem createAppointment_taken_is_bad_request_witness:
  "createAppointment bookedSalon (booking (at monday 12 30)) ''luis'' =
     Inl (BadRequestException, ''Existe otra cita en ese horario'') \<and>
   fitsAvailability [\<lparr>istart = at monday 9 0, iend = at monday 18 0\<rparr>]
     (at monday 12 30) (plus_minutes (at monday 12 30) 60) \<and>
   hasConflict [appointmentOf 0 ''ana'' (at monday 13 0) BOOKED]
     (at monday 12 30) (plus_minutes (at monday 12 30) 60) None"
proof -
  let ?b = "\<lparr>b_id = ''salon'', b_ownerId = ''owner'', b_timezone = ''Asia/Tokyo''\<rparr>"
  let ?s = "\<lparr>s_id = ''corte'', s_businessId = ''salon'', s_durationMin = 60\<rparr>"
  let ?i = "booking (at monday 12 30)"
  have b: "findBusiness bookedSalon (ci_businessId ?i) = Some ?b"
    by code_simp
  have s: "findService bookedSalon (ci_serviceId ?i) = Some ?s"
    by code_simp
  have sb: "s_businessId ?s = ci_businessId ?i"
    by (simp add: booking_def)
  have c: "''luis'' \<in> set (userClients bookedSalon)"
    by (simp add: salon_def bookedSalon_def emptySalon_def)
  have staff: "truthy (ci_staffId ?i) \<Longrightarrow> ci_staffId ?i \<in> set (map Some (userBusinesses bookedSalon))"
    by (simp add: booking_def truthy_def)
  have st: "ci_startAt ?i = Some (at monday 12 30)" "ci_staffId ?i = None"
    by (simp_all add: booking_def)
  have cx: "getDailyContext bookedSalon (ci_businessId ?i) (Some (at monday 12 30)) =
      Inr \<lparr>c_business = ?b, c_intervals = [\<lparr>istart = at monday 9 0, iend = at monday 18 0\<rparr>],
           c_appointments = [appointmentOf 0 ''ana'' (at monday 13 0) BOOKED], c_day = monday\<rparr>"
    by code_simp
  have f: "fitsAvailability [\<lparr>istart = at monday 9 0, iend = at monday 18 0\<rparr>]
     (at monday 12 30) (plus_minutes (at monday 12 30) 60)"
    by code_simp
  have h: "hasConflict [appointmentOf 0 ''ana'' (at monday 13 0) BOOKED]
     (at monday 12 30) (plus_minutes (at monday 12 30) 60) None"
    by code_simp
  from createAppointment_taken_is_bad_request [OF b s sb c staff] st cx f h
  show ?thesis by simp
qed

text \<open>
  C7, as stated, fails: the booking of a taken slot and the booking of a slot outside
  availability are both answered with a \<open>BadRequestException\<close>.
\<close>

theorem createAppointment_conflict_class_counterexample:
  "createAppointment bookedSalon (booking (at monday 12 30)) ''luis'' =
     Inl (BadRequestException, ''Existe otra cita en ese horario'') \<and>
   createAppointment bookedSalon (booking (at monday 17 30)) ''luis'' =
     Inl (BadRequestException, ''Horario fuera de la disponibilidad del negocio'') \<and>
   createAppointment bookedSalon
       \<lparr>ci_businessId = ''salon'', ci_serviceId = ''corte'', ci_startAt = None,
        ci_staffId = None, ci_customerNote = None\<rparr> ''luis'' =
     Inl (BadRequestException, ''Fecha de inicio invalida'')"
  by code_simp

section \<open>The overlap invariant\<close>

text \<open>
  As long as every rule and every exception of the store ends by 24:00, each booked
  appointment ends within the day it starts in, the query of \<open>getDailyContext\<close>
  sees every appointment that can overlap a new one, and the operations of the
  service keep the overlap invariant.
\<close>

lemma startOfDay_bounds: "startOfDay t \<le> t \<and> t < plus_days (startOfDay t) 1"
  by (simp add: startOfDay_def plus_days_def MS_PER_DAY_def)

lemma startOfDay_mult: "startOfDay t = MS_PER_DAY * (t div MS_PER_DAY)"
  by (simp add: startOfDay_def minus_mod_eq_mult_div)

lemma startOfDay_idem: "startOfDay (startOfDay t) = startOfDay t"
  by (simp add: startOfDay_mult)

lemma minute_of_startOfDay: "minute_of (startOfDay t) = 0"
proof -
  have "startOfDay t = MS_PER_HOUR * (24 * (t div MS_PER_DAY))"
    by (simp add: startOfDay_mult MS_PER_DAY_def MS_PER_HOUR_def)
  then have "startOfDay t mod MS_PER_HOUR = 0" by simp
  then show ?thesis by (simp add: minute_of_def)
qed

lemma set_time_startOfDay:
  "set_time (startOfDay t) h m =
     startOfDay t + h * MS_PER_HOUR + (case m of None \<Rightarrow> 0 | Some x \<Rightarrow> x) * MS_PER_MINUTE"
  by (simp add: set_time_def startOfDay_idem minute_of_startOfDay split: option.splits)

lemma intervalFromStrings_iend:
  assumes "intervalFromStrings day startTime endTime = Some i"
  shows "\<exists>h m. hourMinute endTime = (Some h, m) \<and> m \<noteq> Some None \<and>
           iend i = set_time day h (case m of None \<Rightarrow> None | Some x \<Rightarrow> x)"
proof -
  obtain sh sm eh em where hm: "hourMinute startTime = (sh, sm)" "hourMinute endTime = (eh, em)"
    by (metis surj_pair)
  show ?thesis
    using assms unfolding intervalFromStrings_def hm
    by (auto simp: Let_def split: option.splits if_splits)
qed

lemma intervalFromStrings_inDay:
  assumes "intervalFromStrings (startOfDay t) startTime endTime = Some i"
    and "timeInDay endTime"
  shows "iend i \<le> plus_days (startOfDay t) 1"
proof -
  obtain h m where hm: "hourMinute endTime = (Some h, m)" "m \<noteq> Some None"
    and e: "iend i = set_time (startOfDay t) h (case m of None \<Rightarrow> None | Some x \<Rightarrow> x)"
    using intervalFromStrings_iend [OF assms(1)] by blast
  show ?thesis
  proof (cases m)
    case None
    then have "h \<le> 24" using assms(2) hm by (simp add: timeInDay_def)
    then show ?thesis
      using e None by (simp add: set_time_startOfDay plus_days_def MS_PER_DAY_def MS_PER_HOUR_def)
  next
    case (Some x)
    then obtain mm where x: "x = Some mm" using hm(2) by (cases x) auto
    then have "h * 60 + mm \<le> 1440" using assms(2) hm Some by (simp add: timeInDay_def)
    then show ?thesis
      using e Some x
      by (simp add: set_time_startOfDay plus_days_def MS_PER_DAY_def MS_PER_HOUR_def
          MS_PER_MINUTE_def)
  qed
qed

lemma next_day_le:
  assumes "x < startOfDay s"
  shows "plus_days (startOfDay x) 1 \<le> startOfDay s"
proof -
  have pos: "0 < MS_PER_DAY" by (simp add: MS_PER_DAY_def)
  have "MS_PER_DAY * (x div MS_PER_DAY) \<le> x"
    using pos by (simp add: minus_mod_eq_mult_div [symmetric])
  have "x div MS_PER_DAY < s div MS_PER_DAY"
  proof (rule ccontr)
    assume "\<not> x div MS_PER_DAY < s div MS_PER_DAY"
    then have "MS_PER_DAY * (s div MS_PER_DAY) \<le> MS_PER_DAY * (x div MS_PER_DAY)"
      using pos by (simp add: mult_left_mono)
    with \<open>MS_PER_DAY * (x div MS_PER_DAY) \<le> x\<close> assms show False
      by (simp add: startOfDay_mult)
  qed
  then have "x div MS_PER_DAY + 1 \<le> s div MS_PER_DAY" by simp
  then have "MS_PER_DAY * (x div MS_PER_DAY + 1) \<le> MS_PER_DAY * (s div MS_PER_DAY)"
    using pos by (simp only: mult_left_mono less_imp_le)
  then show ?thesis
    by (simp add: startOfDay_mult plus_days_def distrib_left)
qed

lemma ruleIntervals_source:
  "i \<in> set (ruleIntervals day rules) \<Longrightarrow>
   \<exists>r \<in> set rules. intervalFromStrings day (r_startTime r) (r_endTime r) = Some i"
  by (auto simp: ruleIntervals_def List.map_filter_def)

lemma findRules_subset: "set (findRules d businessId dayOfWeek) \<subseteq> set (availabilityRules d)"
  by (auto simp: findRules_def)

lemma context_intervals_inDay:
  assumes "scheduleInDay d"
    and "getDailyContext d businessId (Some t) = Inr ctx"
    and "i \<in> set (c_intervals ctx)"
  shows "iend i \<le> plus_days (startOfDay t) 1"
proof -
  let ?day = "startOfDay t"
  let ?dow = "if weekday ?day = 7 then 0 else weekday ?day"
  have ci: "c_intervals ctx =
      applyException ?day (findFirstException d businessId ?day)
        (ruleIntervals ?day (findRules d businessId ?dow))"
    using assms(2) by (auto simp: getDailyContext_def Let_def split: option.splits)
  have rules: "iend j \<le> plus_days ?day 1"
    if j: "j \<in> set (ruleIntervals ?day (findRules d businessId ?dow))" for j
  proof -
    obtain r where r: "r \<in> set (availabilityRules d)"
      "intervalFromStrings ?day (r_startTime r) (r_endTime r) = Some j"
      using ruleIntervals_source [OF j] findRules_subset by blast
    then have "timeInDay (r_endTime r)"
      using assms(1) by (simp add: scheduleInDay_def list_all_iff)
    with r(2) show ?thesis by (rule intervalFromStrings_inDay)
  qed
  show ?thesis
  proof (cases "findFirstException d businessId ?day")
    case None
    then show ?thesis using assms(3) rules by (simp add: ci applyException_def)
  next
    case (Some ex)
    then have "ex \<in> set (availabilityExceptions d)"
      by (rule findFirstException_in_set)
    then have ok: "case e_endTime ex of None \<Rightarrow> True | Some t \<Rightarrow> timeInDay t"
      using assms(1) by (simp add: scheduleInDay_def list_all_iff)
    show ?thesis
      using assms(3) rules ok intervalFromStrings_inDay [of t]
      by (auto simp: ci Some applyException_def split: if_splits option.splits)
  qed
qed

lemma createAppointment_shape:
  assumes "createAppointment d input customerId = Inr (a, d')"
  shows "\<exists>ctx. getDailyContext d (a_businessId a) (Some (a_startAt a)) = Inr ctx \<and>
           fitsAvailability (c_intervals ctx) (a_startAt a) (a_endAt a) \<and>
           \<not> hasConflict (c_appointments ctx) (a_startAt a) (a_endAt a) (a_staffId a) \<and>
           appointments d' = appointments d @ [a] \<and>
           availabilityRules d' = availabilityRules d \<and>
           availabilityExceptions d' = availabilityExceptions d"
  using assms
  by (auto simp: createAppointment_def Let_def split: option.splits if_splits sum.splits)

lemma createAppointment_preserves:
  assumes "createAppointment d input customerId = Inr (a, d')"
    and "scheduleInDay d"
    and "list_all endsInStartDay (appointments d)"
    and "noDoubleBooking d"
  shows "list_all endsInStartDay (appointments d') \<and> noDoubleBooking d'"
proof -
  let ?day = "startOfDay (a_startAt a)"
  obtain ctx where ctx: "getDailyContext d (a_businessId a) (Some (a_startAt a)) = Inr ctx"
    and fits: "fitsAvailability (c_intervals ctx) (a_startAt a) (a_endAt a)"
    and free: "\<not> hasConflict (c_appointments ctx) (a_startAt a) (a_endAt a) (a_staffId a)"
    and app: "appointments d' = appointments d @ [a]"
    using createAppointment_shape [OF assms(1)] by blast
  obtain i where "i \<in> set (c_intervals ctx)" "a_endAt a \<le> iend i"
    using fits by (auto simp: fitsAvailability_iff)
  then have ends: "a_endAt a \<le> plus_days ?day 1"
    using context_intervals_inDay [OF assms(2) ctx] by fastforce
  have "\<not> conflicting x a" if x: "x \<in> set (appointments d)" for x
  proof
    assume c: "conflicting x a"
    have xe: "a_endAt x \<le> plus_days (startOfDay (a_startAt x)) 1"
      using assms(3) x by (simp add: list_all_iff endsInStartDay_def)
    consider "a_startAt x < ?day" | "plus_days ?day 1 \<le> a_startAt x"
      | "?day \<le> a_startAt x" "a_startAt x < plus_days ?day 1"
      by linarith
    then show False
    proof cases
      case 1
      then have "a_endAt x \<le> ?day" using next_day_le xe by fastforce
      then show False using c startOfDay_bounds [of "a_startAt a"]
        by (simp add: conflicting_def)
    next
      case 2
      then show False using c ends by (simp add: conflicting_def)
    next
      case 3
      then have "x \<in> set (c_appointments ctx)"
        using c x getDailyContext_appointments [OF ctx] by (simp add: conflicting_def)
      then have "\<not> overlaps (a_startAt a) (a_endAt a) (a_startAt x) (a_endAt x)
                    (a_staffId a) (a_staffId x)"
        using free by (auto simp: hasConflict_iff)
      then show False using c by (auto simp: conflicting_def overlaps_def split: if_splits)
    qed
  qed
  then show ?thesis
    using assms(3,4) ends
    by (simp add: app noDoubleBooking_def sorted_wrt_append endsInStartDay_def)
qed

lemma cancelAppointment_shape:
  assumes "cancelAppointment d ident act = Inr (a, d')"
  shows "(d' = d \<or> d' = setCancelled d ident)"
  using assms by (auto simp: cancelAppointment_def split: option.splits if_splits sum.splits)

lemma setCancelled_preserves:
  assumes "list_all endsInStartDay (appointments d)" and "noDoubleBooking d"
  shows "list_all endsInStartDay (appointments (setCancelled d ident)) \<and>
         noDoubleBooking (setCancelled d ident)"
proof -
  let ?f = "\<lambda>a. if a_id a = ident then a\<lparr>a_status := CANCELLED\<rparr> else a"
  have e: "list_all endsInStartDay (appointments (setCancelled d ident))"
    using assms(1) by (auto simp: setCancelled_def list_all_iff endsInStartDay_def)
  have c: "\<not> conflicting a b \<Longrightarrow> \<not> conflicting (?f a) (?f b)" for a b
    by (auto simp: conflicting_def)
  have "sorted_wrt (\<lambda>a b. \<not> conflicting (?f a) (?f b)) (appointments d)"
    by (rule sorted_wrt_mono_rel [OF _ assms(2) [unfolded noDoubleBooking_def]]) (rule c)
  then have "noDoubleBooking (setCancelled d ident)"
    by (simp add: setCancelled_def noDoubleBooking_def sorted_wrt_map)
  with e show ?thesis by simp
qed

lemma reachable_inDay_invariant:
  "reachable d \<Longrightarrow> scheduleInDay d \<Longrightarrow>
   list_all endsInStartDay (appointments d) \<and> noDoubleBooking d"
proof (induction rule: reachable.induct)
  case (initial d)
  then show ?case by (simp add: noDoubleBooking_def)
next
  case (managed d bs ss cs us)
  then show ?case by (simp add: noDoubleBooking_def scheduleInDay_def)
next
  case (rule_added d businessId ruleInput actorId rule d')
  from rule_added.hyps(2) have
    "availabilityRules d' = availabilityRules d @ [rule]"
    "availabilityExceptions d' = availabilityExceptions d"
    "appointments d' = appointments d"
    by (auto simp: addAvailabilityRule_def Let_def split: sum.splits if_splits)
  with rule_added show ?case by (simp add: noDoubleBooking_def scheduleInDay_def)
next
  case (exception_added d businessId exInput actorId ex d')
  from exception_added.hyps(2) have
    "availabilityRules d' = availabilityRules d"
    "availabilityExceptions d' = availabilityExceptions d @ [ex]"
    "appointments d' = appointments d"
    by (auto simp: addAvailabilityException_def Let_def split: sum.splits if_splits option.splits)
  with exception_added show ?case by (simp add: noDoubleBooking_def scheduleInDay_def)
next
  case (booked d input customerId created d')
  have "scheduleInDay d"
    using booked.prems createAppointment_shape [OF booked.hyps(2)]
    by (auto simp: scheduleInDay_def)
  with booked show ?case using createAppointment_preserves by blast
next
  case (cancelled d ident act appointment d')
  have s: "scheduleInDay d"
    using cancelled.prems cancelAppointment_shape [OF cancelled.hyps(2)]
    by (auto simp: scheduleInDay_def setCancelled_def)
  show ?case
    using cancelAppointment_shape [OF cancelled.hyps(2)] cancelled.IH [OF s] setCancelled_preserves
    by auto
qed

text \<open>
  C1, as stated, fails on the code. The owner adds a Monday rule from 22:00 to
  "26:00", which \<open>assertValidTimeRange\<close> accepts, and a Tuesday rule from 00:00 to
  02:00. Ana books Monday 23:30 and Luis books Tuesday 00:00, both without staff. The
  second booking looks only at the appointments that start on Tuesday, so both are
  stored, both \<open>BOOKED\<close>, and they overlap from 00:00 to 00:30.
\<close>

theorem double_booking_after_midnight:
  "addAvailabilityRule emptySalon ''salon'' lateMonday (Some ''owner'') =
     Inr (\<lparr>r_businessId = ''salon'', r_dayOfWeek = 1, r_startTime = ''22:00'', r_endTime = ''26:00''\<rparr>,
          lateSalon) \<and>
   addAvailabilityRule lateSalon ''salon'' earlyTuesday (Some ''owner'') =
     Inr (\<lparr>r_businessId = ''salon'', r_dayOfWeek = 2, r_startTime = ''00:00'', r_endTime = ''02:00''\<rparr>,
          nightSalon) \<and>
   createAppointment nightSalon (booking (at monday 23 30)) ''ana'' =
     Inr (anaLate, nightSalon\<lparr>appointments := [anaLate], nextId := 1\<rparr>) \<and>
   createAppointment (nightSalon\<lparr>appointments := [anaLate], nextId := 1\<rparr>)
       (booking (at monday 24 0)) ''luis'' =
     Inr (luisEarly, nightSalon\<lparr>appointments := [anaLate, luisEarly], nextId := 2\<rparr>) \<and>
   a_businessId anaLate = a_businessId luisEarly \<and>
   a_status anaLate = BOOKED \<and> a_status luisEarly = BOOKED \<and>
   a_staffId anaLate = None \<and> a_staffId luisEarly = None \<and>
   a_startAt anaLate < a_endAt luisEarly \<and> a_startAt luisEarly < a_endAt anaLate \<and>
   \<not> noDoubleBooking (nightSalon\<lparr>appointments := [anaLate, luisEarly], nextId := 2\<rparr>)"
  by code_simp

section \<open>Slot generation\<close>

text \<open>
  Whenever the walk over one interval returns, every slot it has added passed the
  conflict test. The rule \<open>walkInterval.raw_induct\<close> covers the runs that return.
\<close>

lemma walkInterval_free:
  assumes "walkInterval serviceDuration stepMinutes now appts staffId intervalEnd slots cursor = Some result"
    and "list_all (slotFree appts staffId) slots"
  shows "list_all (slotFree appts staffId) result"
proof -
  have "list_all (slotFree appts staffId) slots \<longrightarrow> list_all (slotFree appts staffId) result"
  proof (rule walkInterval.raw_induct
      [where P = "\<lambda>serviceDuration stepMinutes now appts staffId intervalEnd slots cursor result.
                    list_all (slotFree appts staffId) slots \<longrightarrow> list_all (slotFree appts staffId) result",
       OF _ assms(1)],
      goal_cases)
    case (1 walk serviceDuration stepMinutes now appts staffId intervalEnd slots cursor result)
    show ?case
    proof (cases "plus_minutes cursor serviceDuration \<le> intervalEnd")
      case True
      let ?slots' = "if \<not> cursor \<le> minus_minutes now 1 \<and>
             \<not> hasConflict appts cursor (plus_minutes cursor serviceDuration) staffId
          then slots @ [\<lparr>sl_startAt = cursor, sl_endAt = plus_minutes cursor serviceDuration\<rparr>]
          else slots"
      have rec: "walk serviceDuration stepMinutes now appts staffId intervalEnd ?slots'
             (plus_minutes cursor stepMinutes) = Some result"
        using 1(2) True by (simp add: Let_def)
      have "slotFree appts staffId \<lparr>sl_startAt = c, sl_endAt = e\<rparr> = (\<not> hasConflict appts c e staffId)"
        for c e by (simp add: slotFree_def)
      then have "list_all (slotFree appts staffId) slots \<longrightarrow> list_all (slotFree appts staffId) ?slots'"
        by simp
      with 1(1)[OF rec] show ?thesis by blast
    next
      case False
      then show ?thesis using 1(2) by simp
    qed
  qed
  with assms(2) show ?thesis by blast
qed

lemma walkIntervals_free:
  "walkIntervals serviceDuration stepMinutes now appts staffId intervals slots = Some result \<Longrightarrow>
   list_all (slotFree appts staffId) slots \<Longrightarrow> list_all (slotFree appts staffId) result"
proof (induction intervals arbitrary: slots)
  case Nil
  then show ?case by simp
next
  case (Cons interval rest)
  then show ?case
    by (auto split: option.splits dest: walkInterval_free)
qed

text \<open>
  C4. For every slot \<open>S\<close> that \<open>getAvailability\<close> returns and every non-cancelled
  appointment \<open>A\<close> of the business that starts within the queried day, the conflict
  test of \<open>S\<close> against \<open>A\<close> is false: unless the request and \<open>A\<close> name different
  staff members, the intervals of \<open>S\<close> and \<open>A\<close> do not overlap.
\<close>

theorem slots_avoid_appointments:
  assumes "getAvailability d now businessId params = Some (Inr result)"
  shows "\<forall>S \<in> set (v_slots result). \<forall>A \<in> set (findAppointments d businessId (v_date result)).
           \<not> overlaps (sl_startAt S) (sl_endAt S) (a_startAt A) (a_endAt A) (q_staffId params) (a_staffId A) \<and>
           (\<not> (truthy (q_staffId params) \<and> truthy (a_staffId A) \<and> a_staffId A \<noteq> q_staffId params) \<longrightarrow>
              \<not> (sl_startAt S < a_endAt A \<and> sl_endAt S > a_startAt A))"
proof -
  from assms obtain cx :: dailyContext and service :: service where
    ctx: "getDailyContext d businessId (q_date params) = Inr cx"
    and walk: "walkIntervals (s_durationMin service) (stepOrDefault (q_stepMinutes params)) now
         (c_appointments cx) (q_staffId params) (c_intervals cx) [] = Some (v_slots result)"
    and day: "v_date result = c_day cx"
    by (auto simp: getAvailability_def Let_def split: sum.splits option.splits if_splits)
  have appts: "c_appointments cx = findAppointments d businessId (c_day cx)"
    using ctx by (auto simp: getDailyContext_def Let_def split: option.splits)
  have "list_all (slotFree (c_appointments cx) (q_staffId params)) (v_slots result)"
    using walkIntervals_free[OF walk] by simp
  then have free: "\<not> overlaps (sl_startAt S) (sl_endAt S) (a_startAt A) (a_endAt A)
                      (q_staffId params) (a_staffId A)"
    if "S \<in> set (v_slots result)" "A \<in> set (findAppointments d businessId (v_date result))"
    for S A
    using that unfolding appts day list_all_iff slotFree_def hasConflict_iff by blast
  show ?thesis
  proof (intro ballI conjI impI)
    fix S A
    assume SA: "S \<in> set (v_slots result)" "A \<in> set (findAppointments d businessId (v_date result))"
    show "\<not> overlaps (sl_startAt S) (sl_endAt S) (a_startAt A) (a_endAt A)
              (q_staffId params) (a_staffId A)"
      using free[OF SA] .
    assume "\<not> (truthy (q_staffId params) \<and> truthy (a_staffId A) \<and> a_staffId A \<noteq> q_staffId params)"
    then show "\<not> (sl_startAt S < a_endAt A \<and> sl_endAt S > a_startAt A)"
      using free[OF SA] by (auto simp: overlaps_def split: if_splits)
  qed
qed

theorem slots_avoid_appointments_witness:
  "getAvailability bookedSalon 0 ''salon''
     \<lparr>q_date = Some monday, q_serviceId = ''corte'', q_stepMinutes = Some 240, q_staffId = None\<rparr> =
     Some (Inr \<lparr>v_date = monday, v_serviceDurationMin = 60, v_stepMinutes = 240,
                v_slots = [\<lparr>sl_startAt = at monday 9 0, sl_endAt = at monday 10 0\<rparr>,
                           \<lparr>sl_startAt = at monday 17 0, sl_endAt = at monday 18 0\<rparr>]\<rparr>) \<and>
   findAppointments bookedSalon ''salon'' monday = [appointmentOf 0 ''ana'' (at monday 13 0) BOOKED] \<and>
   \<not> (at monday 9 0 < a_endAt (appointmentOf 0 ''ana'' (at monday 13 0) BOOKED) \<and>
      at monday 10 0 > a_startAt (appointmentOf 0 ''ana'' (at monday 13 0) BOOKED)) \<and>
   \<not> (at monday 17 0 < a_endAt (appointmentOf 0 ''ana'' (at monday 13 0) BOOKED) \<and>
      at monday 18 0 > a_startAt (appointmentOf 0 ''ana'' (at monday 13 0) BOOKED))"
proof -
  let ?q = "\<lparr>q_date = Some monday, q_serviceId = ''corte'', q_stepMinutes = Some 240,
             q_staffId = None\<rparr>"
  let ?r = "\<lparr>v_date = monday, v_serviceDurationMin = 60, v_stepMinutes = 240,
             v_slots = [\<lparr>sl_startAt = at monday 9 0, sl_endAt = at monday 10 0\<rparr>,
                        \<lparr>sl_startAt = at monday 17 0, sl_endAt = at monday 18 0\<rparr>]\<rparr>"
  have g: "getAvailability bookedSalon 0 ''salon'' ?q = Some (Inr ?r)"
    by code_simp
  have f: "findAppointments bookedSalon ''salon'' monday =
      [appointmentOf 0 ''ana'' (at monday 13 0) BOOKED]"
    by code_simp
  from slots_avoid_appointments [OF g] g f show ?thesis
    by (simp add: truthy_def)
qed

text \<open>With a positive step the walk over one interval returns: the cursor moves up.\<close>

lemma walkInterval_terminates:
  assumes "0 < stepMinutes"
  shows "\<exists>result. walkInterval serviceDuration stepMinutes now appts staffId intervalEnd slots cursor = Some result"
proof (induction "nat (intervalEnd - plus_minutes cursor serviceDuration + 1)" arbitrary: cursor slots rule: less_induct)
  case less
  show ?case
  proof (cases "plus_minutes cursor serviceDuration \<le> intervalEnd")
    case True
    have "nat (intervalEnd - plus_minutes (plus_minutes cursor stepMinutes) serviceDuration + 1)
            < nat (intervalEnd - plus_minutes cursor serviceDuration + 1)"
      using True assms by (simp add: plus_minutes_def MS_PER_MINUTE_def)
    from less[OF this] show ?thesis
      using True by (subst walkInterval.simps) (simp add: Let_def)
  next
    case False
    then show ?thesis by (subst walkInterval.simps) simp
  qed
qed

lemma walkIntervals_terminates:
  assumes "0 < stepMinutes"
  shows "\<exists>result. walkIntervals serviceDuration stepMinutes now appts staffId intervals slots = Some result"
proof (induction intervals arbitrary: slots)
  case Nil
  show ?case by simp
next
  case (Cons interval rest)
  obtain slots' where
    "walkInterval serviceDuration stepMinutes now appts staffId (iend interval) slots (istart interval) = Some slots'"
    using walkInterval_terminates[OF assms] by blast
  then show ?case using Cons by simp
qed

lemma stepOrDefault_positive:
  "(case stepMinutes of None \<Rightarrow> True | Some n \<Rightarrow> 0 \<le> n) \<Longrightarrow> 0 < stepOrDefault stepMinutes"
  by (auto simp: stepOrDefault_def DEFAULT_STEP_MINUTES_def split: option.splits)

text \<open>
  C10. When the step of the request is absent, zero (both stand for the default 15) or
  positive, \<open>getAvailability\<close> returns; the loop over any list of intervals returns a
  list of slots; and each iteration moves the cursor strictly up.
\<close>

theorem getAvailability_terminates:
  assumes "q_stepMinutes params = None \<or> q_stepMinutes params = Some n \<and> 0 \<le> n"
  shows "(\<exists>outcome. getAvailability d now businessId params = Some outcome) \<and>
         (\<forall>serviceDuration appts staffId intervals.
            \<exists>slots. walkIntervals serviceDuration (stepOrDefault (q_stepMinutes params)) now appts
                      staffId intervals [] = Some slots) \<and>
         (\<forall>cursor. cursor < plus_minutes cursor (stepOrDefault (q_stepMinutes params)))"
proof -
  have pos: "0 < stepOrDefault (q_stepMinutes params)"
    using assms by (intro stepOrDefault_positive) (auto split: option.splits)
  have walk: "\<exists>slots. walkIntervals serviceDuration (stepOrDefault (q_stepMinutes params)) now appts
                      staffId intervals [] = Some slots" for serviceDuration appts staffId intervals
    using walkIntervals_terminates[OF pos] by blast
  have "\<exists>outcome. getAvailability d now businessId params = Some outcome"
  proof (cases "getDailyContext d businessId (q_date params)")
    case (Inl err)
    then show ?thesis by (simp add: getAvailability_def)
  next
    case (Inr cx)
    show ?thesis
    proof (cases "findService d (q_serviceId params)")
      case None
      then show ?thesis using Inr by (simp add: getAvailability_def)
    next
      case (Some service)
      obtain slots where "walkIntervals (s_durationMin service) (stepOrDefault (q_stepMinutes params)) now
          (c_appointments cx) (q_staffId params) (c_intervals cx) [] = Some slots"
        using walk by blast
      then show ?thesis using Inr Some by (simp add: getAvailability_def Let_def)
    qed
  qed
  moreover have "cursor < plus_minutes cursor (stepOrDefault (q_stepMinutes params))" for cursor
    using pos by (simp add: plus_minutes_def MS_PER_MINUTE_def)
  ultimately show ?thesis using walk by blast
qed

theorem getAvailability_terminates_witness:
  "(\<exists>outcome. getAvailability salon 0 ''salon''
       \<lparr>q_date = Some monday, q_serviceId = ''corte'', q_stepMinutes = Some 0, q_staffId = None\<rparr> =
       Some outcome) \<and>
   stepOrDefault (Some 0) = 15"
  using getAvailability_terminates
    [of "\<lparr>q_date = Some monday, q_serviceId = ''corte'', q_stepMinutes = Some 0, q_staffId = None\<rparr>"
       0 salon 0 "''salon''"]
  by (simp add: stepOrDefault_def DEFAULT_STEP_MINUTES_def)

end
